theory Spec2Isabelle
  imports Complex_Main
begin

section \<open>Data model of \<open>skultrafast/twoD_dataset.py\<close>\<close>

text \<open>
  Array elements are modelled as exact reals: rounding, signed zeros and not-a-number
  inside the data arrays are outside of the embedding. A three-dimensional numpy array
  carries its \<open>shape\<close> tuple next to the nested cells, because the shape of an array
  with an axis of length zero cannot be read off nested lists.
\<close>

datatype error =
    ValueError_shape "nat list" "nat list"
  | ValueError_truth_value
  | ValueError_not_a_directory "string list"
  | ValueError_unpack
  | ValueError_empty_reduction
  | ValueError_block
  | ZeroDivisionError
  | IndexError
  | FileExistsError "string list"
  | IsADirectoryError "string list"
  | LinAlgError
  | TypeError_polyfit

record ndarray =
  shape :: "nat list"
  cube :: "real list list list"

text \<open>
  The fields of \<open>TwoDim\<close> that hold data. The cache fields (\<open>single_cls_result_\<close>,
  \<open>cls_result_\<close>, \<open>interpolator_\<close>, \<open>exp_fit_result_\<close>), \<open>info\<close> and \<open>plot\<close> take
  no part in the operations below.
\<close>

record TwoDim =
  t :: "real list"
  pump_wn :: "real list"
  probe_wn :: "real list"
  spec2d :: ndarray

text \<open>An array as numpy can build it: the cells fill the shape exactly.\<close>

definition wf_ndarray :: "ndarray \<Rightarrow> bool" where
  "wf_ndarray a \<longleftrightarrow>
     (case shape a of
        [n, m, k] \<Rightarrow>
          length (cube a) = n \<and>
          (\<forall>plane \<in> set (cube a). length plane = m \<and> (\<forall>row \<in> set plane. length row = k))
      | _ \<Rightarrow> True)"

subsection \<open>numpy primitives used by the constructor\<close>

text \<open>
  \<open>np.argsort\<close>: the indices that sort the array. Equal keys keep their index order
  here (numpy's default sort leaves the order of ties open).
\<close>

definition argsort :: "real list \<Rightarrow> nat list" where
  "argsort xs = sort_key (\<lambda>i. xs ! i) [0..<length xs]"

text \<open>\<open>a[idx]\<close> for an integer index array whose entries are in range.\<close>

definition take_idx :: "'a list \<Rightarrow> nat list \<Rightarrow> 'a list" where
  "take_idx xs idx = map (\<lambda>i. xs ! i) idx"

text \<open>\<open>a[:, :, idx]\<close> and \<open>a[:, idx, :]\<close> on a three-dimensional array.\<close>

definition take_axis2 :: "nat list \<Rightarrow> ndarray \<Rightarrow> ndarray" where
  "take_axis2 idx a =
     \<lparr> shape = (shape a)[2 := length idx],
       cube = map (map (\<lambda>row. take_idx row idx)) (cube a) \<rparr>"

definition take_axis1 :: "nat list \<Rightarrow> ndarray \<Rightarrow> ndarray" where
  "take_axis1 idx a =
     \<lparr> shape = (shape a)[1 := length idx],
       cube = map (\<lambda>plane. take_idx plane idx) (cube a) \<rparr>"

subsection \<open>\<open>TwoDim.__attrs_post_init__\<close>\<close>

text \<open>
  The attrs-generated initialiser stores the four arguments and then runs
  \<open>__attrs_post_init__\<close>; a raise there means that the constructor call yields no object.
  The \<open>.copy()\<close> calls are the identity on values; their effect on memory is modelled
  in the section on the store below.
\<close>

definition attrs_post_init :: "TwoDim \<Rightarrow> error + TwoDim" where
  "attrs_post_init self =
     (let n = length (t self); m = length (probe_wn self); k = length (pump_wn self) in
      if shape (spec2d self) \<noteq> [n, m, k]
      then Inl (ValueError_shape (shape (spec2d self)) [n, m, k])
      else
        let i1 = argsort (pump_wn self);
            pump' = take_idx (pump_wn self) i1;
            i2 = argsort (probe_wn self);
            probe' = take_idx (probe_wn self) i2;
            spec' = take_axis1 i2 (take_axis2 i1 (spec2d self))
        in Inr \<lparr> t = t self, pump_wn = pump', probe_wn = probe', spec2d = spec' \<rparr>)"

text \<open>\<open>TwoDim(t, pump_wn, probe_wn, spec2d)\<close>.\<close>

definition TwoDim_new :: "real list \<Rightarrow> real list \<Rightarrow> real list \<Rightarrow> ndarray \<Rightarrow> error + TwoDim" where
  "TwoDim_new wt pu pr sp =
     attrs_post_init \<lparr> t = wt, pump_wn = pu, probe_wn = pr, spec2d = sp \<rparr>"

subsection \<open>The constructor on a store\<close>

text \<open>
  Whether the dataset shares memory with the caller's arrays is a question about
  references. The store holds the one-dimensional arrays and the three-dimensional arrays
  in two typed heaps; an address is a position, and every numpy operation that builds a
  new array (\<open>.copy()\<close>, indexing with an index array) appends to the heap.
  \<open>attrs_post_init_store\<close> is \<open>__attrs_post_init__\<close> statement by statement.
\<close>

record store =
  vecs :: "real list list"
  arrs :: "ndarray list"

record TwoDim_ref =
  t_ref :: nat
  pump_wn_ref :: nat
  probe_wn_ref :: nat
  spec2d_ref :: nat

definition new_vec :: "real list \<Rightarrow> store \<Rightarrow> nat \<times> store" where
  "new_vec xs s = (length (vecs s), s\<lparr>vecs := vecs s @ [xs]\<rparr>)"

definition new_arr :: "ndarray \<Rightarrow> store \<Rightarrow> nat \<times> store" where
  "new_arr a s = (length (arrs s), s\<lparr>arrs := arrs s @ [a]\<rparr>)"

definition load :: "store \<Rightarrow> TwoDim_ref \<Rightarrow> TwoDim" where
  "load s r = \<lparr> t = vecs s ! t_ref r, pump_wn = vecs s ! pump_wn_ref r,
                probe_wn = vecs s ! probe_wn_ref r, spec2d = arrs s ! spec2d_ref r \<rparr>"

definition valid_ref :: "store \<Rightarrow> TwoDim_ref \<Rightarrow> bool" where
  "valid_ref s r \<longleftrightarrow> t_ref r < length (vecs s) \<and> pump_wn_ref r < length (vecs s)
      \<and> probe_wn_ref r < length (vecs s) \<and> spec2d_ref r < length (arrs s)"

definition attrs_post_init_store :: "store \<Rightarrow> TwoDim_ref \<Rightarrow> error + (TwoDim_ref \<times> store)" where
  "attrs_post_init_store s0 self =
     (let n = length (vecs s0 ! t_ref self);
          m = length (vecs s0 ! probe_wn_ref self);
          k = length (vecs s0 ! pump_wn_ref self) in
      if shape (arrs s0 ! spec2d_ref self) \<noteq> [n, m, k]
      then Inl (ValueError_shape (shape (arrs s0 ! spec2d_ref self)) [n, m, k])
      else
        let (sp, s1) = new_arr (arrs s0 ! spec2d_ref self) s0;
            (pr, s2) = new_vec (vecs s1 ! probe_wn_ref self) s1;
            (pu, s3) = new_vec (vecs s2 ! pump_wn_ref self) s2;
            (wt, s4) = new_vec (vecs s3 ! t_ref self) s3;
            i1 = argsort (vecs s4 ! pu);
            (pu', s5) = new_vec (take_idx (vecs s4 ! pu) i1) s4;
            i2 = argsort (vecs s5 ! pr);
            (pr', s6) = new_vec (take_idx (vecs s5 ! pr) i2) s5;
            (tmp, s7) = new_arr (take_axis2 i1 (arrs s6 ! sp)) s6;
            (sp', s8) = new_arr (take_axis1 i2 (arrs s7 ! tmp)) s7
        in Inr (\<lparr> t_ref = wt, pump_wn_ref = pu', probe_wn_ref = pr', spec2d_ref = sp' \<rparr>, s8))"

subsection \<open>\<open>TwoDim.copy\<close> and \<open>TwoDim.select_range\<close>\<close>

text \<open>
  \<open>copy\<close> calls the constructor on the fields of \<open>self\<close>, so it runs the shape check and
  the sorting again (the fresh \<open>TwoDimPlotter\<close> is not data).
\<close>

definition copy :: "TwoDim \<Rightarrow> error + TwoDim" where
  "copy self = TwoDim_new (t self) (pump_wn self) (probe_wn self) (spec2d self)"

text \<open>
  Modelled from the spec: \<open>skultrafast.utils.inbetween\<close> is imported but is not among the
  sources. Section 4.2 of the specification: the mask of the values with
  \<open>lower <= value <= upper\<close>.
\<close>

definition inbetween :: "real list \<Rightarrow> real \<Rightarrow> real \<Rightarrow> bool list" where
  "inbetween a lower upper = map (\<lambda>v. lower \<le> v \<and> v \<le> upper) a"

text \<open>
  Indexing with a boolean array: \<open>a[msk]\<close>, \<open>a[:, msk, :]\<close> and \<open>a[:, :, msk]\<close>. numpy
  raises an index error when the mask is not as long as the axis. Only arrays of three
  dimensions are stored in a dataset that the constructor returned.
\<close>

definition mask_idx :: "'a list \<Rightarrow> bool list \<Rightarrow> 'a list" where
  "mask_idx xs msk = map fst (filter snd (zip xs msk))"

definition mask_vec :: "real list \<Rightarrow> bool list \<Rightarrow> error + real list" where
  "mask_vec xs msk = (if length msk \<noteq> length xs then Inl IndexError else Inr (mask_idx xs msk))"

definition mask_axis1 :: "bool list \<Rightarrow> ndarray \<Rightarrow> error + ndarray" where
  "mask_axis1 msk a =
     (case shape a of
        [n, m, k] \<Rightarrow>
          if length msk \<noteq> m then Inl IndexError
          else Inr \<lparr> shape = [n, length (filter id msk), k],
                     cube = map (\<lambda>plane. mask_idx plane msk) (cube a) \<rparr>
      | _ \<Rightarrow> Inl IndexError)"

definition mask_axis2 :: "bool list \<Rightarrow> ndarray \<Rightarrow> error + ndarray" where
  "mask_axis2 msk a =
     (case shape a of
        [n, m, k] \<Rightarrow>
          if length msk \<noteq> k then Inl IndexError
          else Inr \<lparr> shape = [n, m, length (filter id msk)],
                     cube = map (map (\<lambda>row. mask_idx row msk)) (cube a) \<rparr>
      | _ \<Rightarrow> Inl IndexError)"

text \<open>
  Python's \<open>not\<close> on a numpy array asks for the truth value of the array: defined for at
  most one element (an empty array counts as false in the numpy releases that still have
  \<open>np.trapz\<close>, which this module calls), a value error for more than one.
\<close>

definition py_not_array :: "bool list \<Rightarrow> error + bool" where
  "py_not_array msk =
     (case msk of
        [] \<Rightarrow> Inr True
      | [b] \<Rightarrow> Inr (\<not> b)
      | _ \<Rightarrow> Inl ValueError_truth_value)"

text \<open>
  What \<open>select_range\<close> returns. With \<open>invert\<close> and masks of at most one element the two
  masks have become Python booleans; indexing with them inserts axes, and the returned
  object no longer has a three-dimensional \<open>spec2d\<close>. \<open>Scalar_indexed ds pr pu\<close> stands for
  that object: the copy \<open>ds\<close> indexed with the booleans \<open>pr\<close> and \<open>pu\<close>.
\<close>

datatype selection = Selected TwoDim | Scalar_indexed TwoDim bool bool

definition select_range :: "TwoDim \<Rightarrow> real \<times> real \<Rightarrow> real \<times> real \<Rightarrow> bool \<Rightarrow> error + selection" where
  "select_range self pump_range probe_range invert =
     (let pu_idx = inbetween (pump_wn self) (min (fst pump_range) (snd pump_range))
                     (max (fst pump_range) (snd pump_range));
          pr_idx = inbetween (probe_wn self) (min (fst probe_range) (snd probe_range))
                     (max (fst probe_range) (snd probe_range))
      in
      if invert then
        (case py_not_array pu_idx of Inl e \<Rightarrow> Inl e | Inr pu_b \<Rightarrow>
         case py_not_array pr_idx of Inl e \<Rightarrow> Inl e | Inr pr_b \<Rightarrow>
         case copy self of Inl e \<Rightarrow> Inl e | Inr ds \<Rightarrow>
           Inr (Scalar_indexed ds pr_b pu_b))
      else
        (case copy self of Inl e \<Rightarrow> Inl e | Inr ds \<Rightarrow>
         case mask_axis1 pr_idx (spec2d ds) of Inl e \<Rightarrow> Inl e | Inr a1 \<Rightarrow>
         case mask_axis2 pu_idx a1 of Inl e \<Rightarrow> Inl e | Inr a2 \<Rightarrow>
         case mask_vec (pump_wn ds) pu_idx of Inl e \<Rightarrow> Inl e | Inr pu' \<Rightarrow>
         case mask_vec (probe_wn ds) pr_idx of Inl e \<Rightarrow> Inl e | Inr pr' \<Rightarrow>
           Inr (Selected (ds\<lparr> spec2d := a2, pump_wn := pu', probe_wn := pr' \<rparr>))))"

subsection \<open>\<open>TwoDim.save_txt\<close> and \<open>TwoDim.save_single_txt\<close>\<close>

text \<open>
  The file system maps a path (its components) to what is there: nothing, a directory, or
  a file. A file written by \<open>np.savetxt\<close> is kept as the matrix it holds; the header line
  and the number format of the text are not modelled.
\<close>

datatype node = Dir | File "real list list"

type_synonym path = "string list"

type_synonym filesystem = "path \<rightharpoonup> node"

definition is_dir :: "filesystem \<Rightarrow> path \<Rightarrow> bool" where
  "is_dir fs p \<longleftrightarrow> fs p = Some Dir"

text \<open>
  \<open>Path.mkdir(parents=True, exist_ok=True)\<close>: every missing directory on the way to the
  path is created; an existing directory is left alone; a file in the way is an error.
\<close>

fun mkdirs :: "path list \<Rightarrow> filesystem \<Rightarrow> error + filesystem" where
  "mkdirs [] fs = Inr fs"
| "mkdirs (q # qs) fs =
     (case fs q of
        Some Dir \<Rightarrow> mkdirs qs fs
      | Some (File c) \<Rightarrow> Inl (FileExistsError q)
      | None \<Rightarrow> mkdirs qs (fs(q \<mapsto> Dir)))"

definition mkdir_parents_exist_ok :: "path \<Rightarrow> filesystem \<Rightarrow> error + filesystem" where
  "mkdir_parents_exist_ok p fs = mkdirs (map (\<lambda>n. take n p) [1..<Suc (length p)]) fs"

text \<open>
  \<open>np.block([[0, pump_wn], [probe_wn[:, None], spec2d[i]]])\<close>: the pump axis behind a
  placeholder in row 0, the probe axis in column 0. The pieces must fit; datasets with a
  \<open>spec2d\<close> that is not three-dimensional are put with the misfits.
\<close>

definition block :: "TwoDim \<Rightarrow> nat \<Rightarrow> error + real list list" where
  "block self i =
     (case shape (spec2d self) of
        [n, m, k] \<Rightarrow>
          if n \<le> i then Inl IndexError
          else if m = length (probe_wn self) \<and> k = length (pump_wn self)
          then Inr ((0 # pump_wn self) # map2 (#) (probe_wn self) (cube (spec2d self) ! i))
          else Inl ValueError_block
      | _ \<Rightarrow> Inl ValueError_block)"

text \<open>\<open>np.savetxt\<close> creates or overwrites the file; it cannot write over a directory.\<close>

definition savetxt :: "path \<Rightarrow> real list list \<Rightarrow> filesystem \<Rightarrow> (error + unit) \<times> filesystem" where
  "savetxt fname arr fs =
     (case fs fname of
        Some Dir \<Rightarrow> (Inl (IsADirectoryError fname), fs)
      | _ \<Rightarrow> (Inr (), fs(fname \<mapsto> File arr)))"

definition save_single_txt :: "TwoDim \<Rightarrow> path \<Rightarrow> nat \<Rightarrow> filesystem \<Rightarrow> (error + unit) \<times> filesystem" where
  "save_single_txt self fname i fs =
     (case block self i of
        Inl e \<Rightarrow> (Inl e, fs)
      | Inr arr \<Rightarrow> savetxt fname arr fs)"

text \<open>
  The loop of \<open>save_txt\<close> over \<open>range(self.spec2d.shape[0])\<close>. \<open>fmt\<close> stands for the
  float formatting \<open>f'{x:.3f}'\<close>. Files written before a raise stay written.
\<close>

fun save_each :: "(real \<Rightarrow> string) \<Rightarrow> TwoDim \<Rightarrow> path \<Rightarrow> nat list \<Rightarrow> filesystem
    \<Rightarrow> (error + unit) \<times> filesystem" where
  "save_each fmt self p [] fs = (Inr (), fs)"
| "save_each fmt self p (i # rest) fs =
     (if length (t self) \<le> i then (Inl IndexError, fs)
      else
        let tstr = fmt (t self ! i) @ ''ps'' in
        (case save_single_txt self (p @ [''wt_'' @ tstr @ ''.txt'']) i fs of
           (Inl e, fs') \<Rightarrow> (Inl e, fs')
         | (Inr u, fs') \<Rightarrow> save_each fmt self p rest fs'))"

text \<open>
  \<open>if not p.is_dir() or p.mkdir(parents=True, exist_ok=True): raise ValueError\<close>. The
  \<open>or\<close> evaluates \<open>mkdir\<close> only when \<open>not p.is_dir()\<close> is false; \<open>mkdir\<close> returns
  \<open>None\<close>, which is false, so nothing is raised after it returned.
\<close>

definition save_txt :: "(real \<Rightarrow> string) \<Rightarrow> TwoDim \<Rightarrow> path \<Rightarrow> filesystem
    \<Rightarrow> (error + unit) \<times> filesystem" where
  "save_txt fmt self p fs =
     (if \<not> is_dir fs p then (Inl (ValueError_not_a_directory p), fs)
      else
        (case mkdir_parents_exist_ok p fs of
           Inl e \<Rightarrow> (Inl e, fs)
         | Inr fs1 \<Rightarrow>
            (case shape (spec2d self) of
               [] \<Rightarrow> (Inl IndexError, fs1)
             | n # _ \<Rightarrow> save_each fmt self p [0..<n] fs1)))"

text \<open>
  The condition \<open>not p.is_dir() or p.mkdir(parents=True, exist_ok=True)\<close> on its own, with
  the methods of \<open>p\<close> that its evaluation calls, in order: its value (or the raise of
  \<open>mkdir\<close>), the file system afterwards, and the calls.
\<close>

datatype path_call = Called_is_dir | Called_mkdir

definition not_dir_or_mkdir :: "filesystem \<Rightarrow> path \<Rightarrow> (error + bool) \<times> filesystem \<times> path_call list" where
  "not_dir_or_mkdir fs p =
     (if \<not> is_dir fs p then (Inr True, fs, [Called_is_dir])
      else
        (case mkdir_parents_exist_ok p fs of
           Inl e \<Rightarrow> (Inl e, fs, [Called_is_dir, Called_mkdir])
         | Inr fs1 \<Rightarrow> (Inr False, fs1, [Called_is_dir, Called_mkdir])))"

subsection \<open>Floating-point values that are not numbers\<close>

text \<open>
  Standard errors can be infinite or not-a-number, and the code tests for that. Such
  values are finite reals or one of the three special values; \<open>1 / x\<close> on an array follows
  numpy (a zero divisor gives infinity with a warning; the sign of a zero is not modelled).
\<close>

datatype float64 = Finite real | PInf | NInf | NaN

fun isfinite :: "float64 \<Rightarrow> bool" where
  "isfinite (Finite x) = True"
| "isfinite _ = False"

fun reciprocal :: "float64 \<Rightarrow> float64" where
  "reciprocal (Finite e) = (if e = 0 then PInf else Finite (1 / e))"
| "reciprocal PInf = Finite 0"
| "reciprocal NInf = Finite 0"
| "reciprocal NaN = NaN"

subsection \<open>\<open>FFCFResult.exp_fit\<close>\<close>

text \<open>
  \<open>exp_fit\<close> builds an lmfit model and hands it to \<open>Model.fit\<close>. The optimiser is a
  library and enters as the parameter \<open>fit\<close>: it returns a result of some type \<open>'r\<close> or
  raises (lmfit refuses, for instance, more free parameters than data points). What the
  method decides is the call: the parameters with their start values, bounds and whether
  they vary, the data and the weights. A parameter varies and is unbounded unless a hint
  says otherwise (lmfit's defaults). The field \<open>exp_fit_result_\<close> is \<open>exp_fit_result\<close> here.
\<close>

record 'r FFCFResult =
  wt :: "real list"
  slopes :: "real list"
  slope_errors :: "float64 list option"
  exp_fit_result :: "'r option"

record param =
  name :: string
  init_value :: real
  vary :: bool
  lower :: "real option"

record fit_call =
  fit_params :: "param list"
  fit_data :: "real list"
  fit_x :: "real list"
  fit_weights :: "float64 list option"

text \<open>\<open>str.endswith\<close>.\<close>

definition endswith :: "string \<Rightarrow> string \<Rightarrow> bool" where
  "endswith s suf \<longleftrightarrow> length suf \<le> length s \<and> drop (length s - length suf) s = suf"

text \<open>
  The loop over \<open>enumerate(start_taus)\<close>: each decay time adds an \<open>ExponentialModel\<close> with
  the prefix \<open>'abcdefg'[i] + '_'\<close> (an index error from the eighth on), whose parameters
  are \<open>amplitude\<close> and \<open>decay\<close> in this order; \<open>vals\<close> gives their start values.
\<close>

fun exp_terms :: "nat \<Rightarrow> nat \<Rightarrow> real list \<Rightarrow> error + (string \<times> real) list" where
  "exp_terms len i [] = Inr []"
| "exp_terms len i (v # vs) =
     (if 7 \<le> i then Inl IndexError
      else
        let prefix = [''abcdefg'' ! i] @ ''_'' in
        (case exp_terms len (Suc i) vs of
           Inl e \<Rightarrow> Inl e
         | Inr ps \<Rightarrow>
             Inr ((prefix @ ''amplitude'', 0.5 / real len) # (prefix @ ''decay'', v) # ps)))"

text \<open>
  The hints: \<open>min=0\<close> for every parameter whose name ends in \<open>decay\<close> or \<open>amplitude\<close>;
  \<open>vary=False\<close> for \<open>c\<close> in the branch without \<open>use_const\<close>, and in that branch only.
\<close>

definition hinted :: "bool \<Rightarrow> string \<times> real \<Rightarrow> param" where
  "hinted use_const nv =
     \<lparr> name = fst nv, init_value = snd nv,
       vary = (if fst nv = ''c'' then use_const else True),
       lower = (if endswith (fst nv) ''decay'' \<or> endswith (fst nv) ''amplitude''
                then Some 0 else None) \<rparr>"

text \<open>
  \<open>np.min\<close> of an empty array is a value error; it is evaluated with \<open>use_const\<close> only.
  The result of the fit is stored in \<open>self\<close> and returned; a raise, of the set-up or of the
  fit, leaves \<open>self\<close> as it was.
\<close>

definition exp_fit :: "(fit_call \<Rightarrow> error + 'r) \<Rightarrow> 'r FFCFResult \<Rightarrow> real list \<Rightarrow> bool \<Rightarrow> bool
    \<Rightarrow> (error + 'r) \<times> 'r FFCFResult" where
  "exp_fit fit self start_taus use_const use_weights =
     (case exp_terms (length start_taus) 0 start_taus of
        Inl e \<Rightarrow> (Inl e, self)
      | Inr vals \<Rightarrow>
          if use_const \<and> slopes self = [] then (Inl ValueError_empty_reduction, self)
          else
            let c = (if use_const then max (Min (set (slopes self))) 0 else 0);
                weights = (case slope_errors self of
                             Some errs \<Rightarrow> if use_weights then Some (map reciprocal errs) else None
                           | None \<Rightarrow> None)
            in (case fit \<lparr> fit_params = map (hinted use_const) ((''c'', c) # vals),
                            fit_data = slopes self, fit_x = wt self, fit_weights = weights \<rparr> of
                  Inl e \<Rightarrow> (Inl e, self)
                | Inr res \<Rightarrow> (Inr res, self\<lparr> exp_fit_result := Some res \<rparr>)))"

subsection \<open>\<open>TwoDim.single_cls\<close>\<close>

text \<open>
  The arguments: \<open>mode\<close> (any string other than \<open>'pos'\<close> acts as \<open>'neg'\<close>), \<open>method\<close>
  (any string other than the four named ones acts as \<open>'com'\<close>), and the two ranges, each
  a float (half width around the extremum) or a tuple (lower, upper).
\<close>

datatype cls_mode = Mode_neg | Mode_pos

datatype cls_method = Com | Quad | Fit | Log_quad | Skew_fit

datatype window = Halfwidth real | Span real real

text \<open>
  The regression is done by statsmodels. \<open>add_constant(x)\<close> puts a column of ones in
  front of \<open>x\<close> (\<open>prepend=True\<close> is its default), unless \<open>x\<close> is itself a non-zero constant
  column, which it returns unchanged. The parameters of a fit are in the order of the
  columns: for \<open>Const_and x\<close> the constant term comes first, then the coefficient of
  \<open>x\<close>. \<open>WLS y X w\<close> and \<open>OLS y X\<close> are the two models that can be fitted.
\<close>

datatype design = Const_and "real list" | Only "real list"

datatype regression =
    WLS "real list" design "float64 list"
  | OLS "real list" design

record RegressionResults =
  reg_model :: regression
  params :: "real list"

text \<open>
  \<open>SingleCLSResult\<close>; its field \<open>pump_wn\<close> is called \<open>cls_pump_wn\<close> here (the dataset has
  a field of that name).
\<close>

record SingleCLSResult =
  cls_pump_wn :: "real list"
  max_pos :: "real list"
  max_pos_err :: "float64 list"
  slope :: real
  reg_result :: RegressionResults
  recentered_pump_wn :: "real list"
  linear_fit :: "real list"

text \<open>\<open>np.argmin\<close>: the first position of the minimum; a value error on an empty array.\<close>

fun index_of :: "real \<Rightarrow> real list \<Rightarrow> nat" where
  "index_of v [] = 0"
| "index_of v (x # xs) = (if x = v then 0 else Suc (index_of v xs))"

definition argmin :: "real list \<Rightarrow> error + nat" where
  "argmin xs = (if xs = [] then Inl ValueError_empty_reduction
                else Inr (index_of (Min (set xs)) xs))"

text \<open>
  Modelled from the spec: \<open>skultrafast.dv.fi\<close>, behind \<open>t_idx\<close>, is imported but is not
  among the sources. Section 4.1 of the specification: the index of the axis element
  closest to the value, the lower index on a tie.
\<close>

definition fi :: "real list \<Rightarrow> real \<Rightarrow> error + nat" where
  "fi axis v = argmin (map (\<lambda>a. \<bar>a - v\<bar>) axis)"

text \<open>
  \<open>self.spec2d[i, :, :].T\<close>: the slice at one waiting time, transposed to one row per pump
  value.
\<close>

definition slice_T :: "ndarray \<Rightarrow> nat \<Rightarrow> error + real list list" where
  "slice_T a i =
     (case shape a of
        [n, m, k] \<Rightarrow>
          if n \<le> i then Inl IndexError
          else Inr (map (\<lambda>c. map (\<lambda>row. row ! c) (cube a ! i)) [0..<k])
      | _ \<Rightarrow> Inl IndexError)"

text \<open>\<open>np.min(spec, 1)\<close>; a value error when the rows are empty.\<close>

definition row_mins :: "real list list \<Rightarrow> error + real list" where
  "row_mins spec =
     (if \<exists>s \<in> set spec. s = [] then Inl ValueError_empty_reduction
      else Inr (map (\<lambda>s. Min (set s)) spec))"

text \<open>\<open>(a < centre + w) & (a > centre - w)\<close>.\<close>

definition around :: "real list \<Rightarrow> real \<Rightarrow> real \<Rightarrow> bool list" where
  "around a centre w = map (\<lambda>v. v < centre + w \<and> v > centre - w) a"

text \<open>
  \<open>ndarray.mean\<close>. The mean of an empty selection is not-a-number in numpy; it is only
  ever subtracted from, and added to, the elements of that same empty selection.
\<close>

definition mean :: "real list \<Rightarrow> real" where
  "mean xs = sum_list xs / real (length xs)"

text \<open>\<open>np.average(a, weights=w)\<close>: weights that sum to zero are a division error.\<close>

definition average :: "real list \<Rightarrow> real list \<Rightarrow> error + real" where
  "average a w =
     (if sum_list w = 0 then Inl ZeroDivisionError
      else Inr (sum_list (map2 (*) a w) / sum_list w))"

text \<open>\<open>np.trapz(y, x)\<close>.\<close>

fun trapz :: "real list \<Rightarrow> real list \<Rightarrow> real" where
  "trapz (y0 # y1 # ys) (x0 # x1 # xs) =
     (x1 - x0) * (y0 + y1) / 2 + trapz (y1 # ys) (x1 # xs)"
| "trapz ys xs = 0"

text \<open>\<open>1 / yerr**2\<close> on floating-point values.\<close>

fun inv_square :: "float64 \<Rightarrow> float64" where
  "inv_square (Finite e) = (if e = 0 then PInf else Finite (1 / e\<^sup>2))"
| "inv_square PInf = Finite 0"
| "inv_square NInf = Finite 0"
| "inv_square NaN = NaN"

definition add_constant :: "real list \<Rightarrow> design" where
  "add_constant x =
     (if x \<noteq> [] \<and> Max (set x) - Min (set x) = 0 \<and> (\<forall>v \<in> set x. v \<noteq> 0)
      then Only x else Const_and x)"

text \<open>\<open>RegressionResults.predict()\<close>: the design matrix times the parameters.\<close>

fun predict :: "real list \<Rightarrow> design \<Rightarrow> real list" where
  "predict ps (Const_and x) = map (\<lambda>v. ps ! 0 * 1 + ps ! 1 * v) x"
| "predict ps (Only x) = map (\<lambda>v. ps ! 0 * v) x"

text \<open>
  The body of the loop over the pump slices. The fits of lmfit and of numpy's
  \<open>Polynomial\<close> are libraries and enter as parameters: \<open>peak_fit skew data x centre amp\<close>
  is the Gaussian fit (with a linear background when \<open>skew\<close>) and returns the fitted centre
  and its standard error, if it has one; \<open>quad_vertex logscale x y\<close> is the root of the
  derivative of the parabola fitted to \<open>y\<close> (to \<open>log(-y)\<close> when \<open>logscale\<close>).
\<close>

definition locate :: "(bool \<Rightarrow> real list \<Rightarrow> real list \<Rightarrow> real \<Rightarrow> real \<Rightarrow> error + real \<times> float64 option)
    \<Rightarrow> (bool \<Rightarrow> real list \<Rightarrow> real list \<Rightarrow> error + real)
    \<Rightarrow> real list \<Rightarrow> window \<Rightarrow> cls_method \<Rightarrow> real list \<Rightarrow> error + real \<times> float64" where
  "locate peak_fit quad_vertex pr pr_range method s =
     (case argmin s of Inl e \<Rightarrow> Inl e | Inr m \<Rightarrow>
      let pr_idx = (case pr_range of
                      Halfwidth w \<Rightarrow> around pr (pr ! m) w
                    | Span lo hi \<Rightarrow> inbetween pr lo hi)
      in
      (case average (mask_idx pr pr_idx) (mask_idx s pr_idx) of Inl e \<Rightarrow> Inl e | Inr cen_of_m \<Rightarrow>
       (case method of
          Fit \<Rightarrow>
            (case peak_fit False (mask_idx s pr_idx) (mask_idx pr pr_idx) cen_of_m
                    (trapz (mask_idx s pr_idx) (mask_idx pr pr_idx)) of
               Inl e \<Rightarrow> Inl e
             | Inr (val, err) \<Rightarrow> Inr (val, case err of None \<Rightarrow> NaN | Some e \<Rightarrow> e))
        | Quad \<Rightarrow>
            (case quad_vertex False (mask_idx pr pr_idx) (mask_idx s pr_idx) of
               Inl e \<Rightarrow> Inl e
             | Inr val \<Rightarrow> Inr (val, Finite 1))
        | Log_quad \<Rightarrow>
            (let s_min = s ! m;
                 i2 = map (\<lambda>v. v < s_min * 0.1) s;
                 both = map2 (\<and>) pr_idx i2
             in case quad_vertex True (mask_idx pr both) (mask_idx s both) of
                  Inl e \<Rightarrow> Inl e
                | Inr val \<Rightarrow> Inr (val, Finite 1))
        | Skew_fit \<Rightarrow>
            (case peak_fit True (mask_idx s pr_idx) (mask_idx pr pr_idx) cen_of_m
                    (trapz (mask_idx s pr_idx) (mask_idx pr pr_idx)) of
               Inl e \<Rightarrow> Inl e
             | Inr (val, err) \<Rightarrow> Inr (val, case err of None \<Rightarrow> NaN | Some e \<Rightarrow> e))
        | Com \<Rightarrow> Inr (cen_of_m, Finite 1))))"

fun locate_all :: "(real list \<Rightarrow> error + real \<times> float64) \<Rightarrow> real list list
    \<Rightarrow> error + (real \<times> float64) list" where
  "locate_all loc [] = Inr []"
| "locate_all loc (s # rest) =
     (case loc s of Inl e \<Rightarrow> Inl e | Inr ve \<Rightarrow>
      (case locate_all loc rest of Inl e \<Rightarrow> Inl e | Inr l \<Rightarrow> Inr (ve # l)))"

text \<open>
  The end of \<open>single_cls\<close>, from \<open>y, yerr = np.array(l).T\<close> on. Unpacking fails when
  no pump slice was selected. \<open>regress\<close> stands for \<open>.fit()\<close> and returns the parameters.
\<close>

definition regression_model :: "(real \<times> float64) list \<Rightarrow> real list \<Rightarrow> regression" where
  "regression_model l x =
     (let y = map fst l; yerr = map snd l;
          all_err_valid = list_all isfinite yerr
      in if all_err_valid then WLS y (add_constant x) (map inv_square yerr)
         else OLS y (add_constant x))"

definition cls_regression :: "(regression \<Rightarrow> error + real list) \<Rightarrow> (real \<times> float64) list
    \<Rightarrow> real list \<Rightarrow> real \<Rightarrow> error + SingleCLSResult" where
  "cls_regression regress l x pu_mean =
     (if l = [] then Inl ValueError_unpack
      else
        (case regress (regression_model l x) of Inl e \<Rightarrow> Inl e | Inr ps \<Rightarrow>
         (case ps of
            [] \<Rightarrow> Inl IndexError
          | p0 # _ \<Rightarrow>
              Inr \<lparr> cls_pump_wn = map (\<lambda>v. v + pu_mean) x,
                    max_pos = map fst l,
                    max_pos_err = map snd l,
                    slope = p0,
                    reg_result = \<lparr> reg_model = regression_model l x, params = ps \<rparr>,
                    recentered_pump_wn = x,
                    linear_fit = predict ps (add_constant x) \<rparr>)))"

text \<open>
  \<open>single_cls\<close>. It also stores its result in \<open>self.single_cls_result_\<close>, a cache that no
  operation here reads.
\<close>

definition single_cls ::
  "(bool \<Rightarrow> real list \<Rightarrow> real list \<Rightarrow> real \<Rightarrow> real \<Rightarrow> error + real \<times> float64 option)
    \<Rightarrow> (bool \<Rightarrow> real list \<Rightarrow> real list \<Rightarrow> error + real)
    \<Rightarrow> (regression \<Rightarrow> error + real list)
    \<Rightarrow> TwoDim \<Rightarrow> real \<Rightarrow> window \<Rightarrow> window \<Rightarrow> cls_mode \<Rightarrow> cls_method
    \<Rightarrow> error + SingleCLSResult" where
  "single_cls peak_fit quad_vertex regress self tq pr_range pu_range mode method =
     (let pu = pump_wn self; pr = probe_wn self in
      case fi (t self) tq of Inl e \<Rightarrow> Inl e | Inr ti \<Rightarrow>
      (case slice_T (spec2d self) ti of Inl e \<Rightarrow> Inl e | Inr spec0 \<Rightarrow>
       let spec = (if mode = Mode_pos then map (map uminus) spec0 else spec0) in
       (case row_mins spec of Inl e \<Rightarrow> Inl e | Inr mins \<Rightarrow>
        (case argmin mins of Inl e \<Rightarrow> Inl e | Inr j \<Rightarrow>
         let pu_max = pu ! j;
             pu_idx = (case pu_range of
                         Halfwidth w \<Rightarrow> around pu pu_max w
                       | Span lo hi \<Rightarrow> inbetween pu lo hi);
             x = map (\<lambda>v. v - mean (mask_idx pu pu_idx)) (mask_idx pu pu_idx);
             spec' = mask_idx spec pu_idx
         in
         (case locate_all (locate peak_fit quad_vertex pr pr_range method) spec' of
            Inl e \<Rightarrow> Inl e
          | Inr l \<Rightarrow> cls_regression regress l x (mean (mask_idx pu pu_idx)))))))"

text \<open>
  Least squares in exact arithmetic, for running \<open>single_cls\<close> on numbers: the solution
  of the weighted normal equations of the two-column design and, where they are singular,
  the solution of least norm, which is what the pseudo-inverse of statsmodels gives.
  Infinite weights make the whitened design infinite, on which the singular value
  decomposition fails.
\<close>

definition wsum :: "real list \<Rightarrow> real list \<Rightarrow> real list \<Rightarrow> real" where
  "wsum w a b = sum_list (map2 (*) w (map2 (*) a b))"

fun lstsq :: "real list \<Rightarrow> design \<Rightarrow> real list \<Rightarrow> real list" where
  "lstsq w (Const_and x) y =
     (let ones = map (\<lambda>v. 1) x;
          a = wsum w ones ones; b = wsum w ones x; d = wsum w x x;
          p = wsum w ones y; q = wsum w x y;
          det = a * d - b * b
      in if det \<noteq> 0 then [(d * p - b * q) / det, (a * q - b * p) / det]
         else [p / (a + d), q / (a + d)])"
| "lstsq w (Only x) y = [wsum w x y / wsum w x x]"

fun finite_value :: "float64 \<Rightarrow> real" where
  "finite_value (Finite v) = v"
| "finite_value _ = 0"

fun exact_regress :: "regression \<Rightarrow> error + real list" where
  "exact_regress (OLS y X) = Inr (lstsq (map (\<lambda>v. 1) y) X y)"
| "exact_regress (WLS y X w) =
     (if list_all isfinite w then Inr (lstsq (map finite_value w) X y) else Inl LinAlgError)"

subsection \<open>\<open>TwoDim.background_correction\<close>\<close>

text \<open>\<open>np.polyval(p, x)\<close>: the coefficients come highest power first.\<close>

definition polyval :: "real list \<Rightarrow> real \<Rightarrow> real" where
  "polyval p v = foldl (\<lambda>acc c. acc * v + c) 0 p"

text \<open>
  \<open>np.polyfit(x, y, deg)\<close> refuses an empty \<open>x\<close> and an \<open>x\<close> and \<open>y\<close> of different lengths
  with a type error, and hands everything else to its least-squares solver, a library
  routine that enters as the parameter \<open>solver\<close>.
\<close>

definition polyfit :: "(real list \<Rightarrow> real list \<Rightarrow> nat \<Rightarrow> error + real list)
    \<Rightarrow> real list \<Rightarrow> real list \<Rightarrow> nat \<Rightarrow> error + real list" where
  "polyfit solver x y deg =
     (if x = [] \<or> length x \<noteq> length y then Inl TypeError_polyfit else solver x y deg)"

text \<open>
  \<open>s = self.spec2d[ti, :, pi]\<close> is a view of one column of the plane at \<open>ti\<close>, along the
  probe axis; \<open>wn_range\<close> is the mask of the probe values outside of the excluded range;
  \<open>s -= vals\<close> writes through the view into the plane.
\<close>

definition probe_column :: "real list list \<Rightarrow> nat \<Rightarrow> real list" where
  "probe_column plane col = map (\<lambda>row. row ! col) plane"

definition outside :: "real list \<Rightarrow> real \<times> real \<Rightarrow> bool list" where
  "outside pr excluded_range = map Not (inbetween pr (fst excluded_range) (snd excluded_range))"

definition subtract_column :: "nat \<Rightarrow> real list \<Rightarrow> real list list \<Rightarrow> real list list" where
  "subtract_column col vals plane = map2 (\<lambda>row v. row[col := row ! col - v]) plane vals"

text \<open>
  The inner loop, over the pump indices of one plane, and the outer loop, over the planes.
  A raise leaves the columns corrected so far as they are.
\<close>

fun correct_plane :: "(real list \<Rightarrow> real list \<Rightarrow> nat \<Rightarrow> error + real list)
    \<Rightarrow> real list \<Rightarrow> bool list \<Rightarrow> nat \<Rightarrow> nat list \<Rightarrow> real list list
    \<Rightarrow> (error + unit) \<times> real list list" where
  "correct_plane solver pr wn_range deg [] plane = (Inr (), plane)"
| "correct_plane solver pr wn_range deg (col # rest) plane =
     (let s = probe_column plane col in
      case mask_vec s wn_range of Inl e \<Rightarrow> (Inl e, plane) | Inr back_vals \<Rightarrow>
      (case polyfit solver (mask_idx pr wn_range) back_vals deg of
         Inl e \<Rightarrow> (Inl e, plane)
       | Inr p \<Rightarrow>
           correct_plane solver pr wn_range deg rest
             (subtract_column col (map (polyval p) pr) plane)))"

fun correct_planes :: "(real list list \<Rightarrow> (error + unit) \<times> real list list)
    \<Rightarrow> real list list list \<Rightarrow> (error + unit) \<times> real list list list" where
  "correct_planes step [] = (Inr (), [])"
| "correct_planes step (plane # rest) =
     (case step plane of
        (Inl e, plane') \<Rightarrow> (Inl e, plane' # rest)
      | (Inr u, plane') \<Rightarrow>
          (case correct_planes step rest of (res, rest') \<Rightarrow> (res, plane' # rest')))"

text \<open>
  \<open>background_correction\<close> returns \<open>None\<close>; the second component is \<open>self\<close> after the call.
  With fewer than three dimensions \<open>shape[2]\<close> is an index error as soon as the outer loop
  runs; arrays of more than three dimensions are not represented.
\<close>

definition background_correction :: "(real list \<Rightarrow> real list \<Rightarrow> nat \<Rightarrow> error + real list)
    \<Rightarrow> TwoDim \<Rightarrow> real \<times> real \<Rightarrow> nat \<Rightarrow> (error + unit) \<times> TwoDim" where
  "background_correction solver self excluded_range deg =
     (let wn_range = outside (probe_wn self) excluded_range in
      case shape (spec2d self) of
        [n, m, k] \<Rightarrow>
          (case correct_planes (correct_plane solver (probe_wn self) wn_range deg [0..<k])
                  (cube (spec2d self)) of
             (res, cube') \<Rightarrow> (res, self\<lparr> spec2d := (spec2d self)\<lparr> cube := cube' \<rparr> \<rparr>))
      | n # _ \<Rightarrow> (if n = 0 then (Inr (), self) else (Inl IndexError, self))
      | [] \<Rightarrow> (Inl IndexError, self))"

text \<open>
  On the store: the array at the address of \<open>spec2d\<close> is overwritten; nothing else
  changes, and no address is handed out (the temporaries of numpy are not kept).
\<close>

definition background_correction_store ::
  "(real list \<Rightarrow> real list \<Rightarrow> nat \<Rightarrow> error + real list)
    \<Rightarrow> store \<Rightarrow> TwoDim_ref \<Rightarrow> real \<times> real \<Rightarrow> nat \<Rightarrow> (error + unit) \<times> store" where
  "background_correction_store solver s self excluded_range deg =
     (case background_correction solver (load s self) excluded_range deg of
        (res, self') \<Rightarrow> (res, s\<lparr> arrs := (arrs s)[spec2d_ref self := spec2d self'] \<rparr>))"

text \<open>
  For the statement about polynomial data: the sum of squared residuals of a coefficient
  list, what it means to be a least-squares solution of degree \<open>deg\<close>, and the two
  arguments that \<open>background_correction\<close> passes to \<open>np.polyfit\<close> for the column
  \<open>(ti, col)\<close>: \<open>self.probe_wn[wn_range]\<close> and \<open>back = s[wn_range]\<close>.
\<close>

definition residual :: "real list \<Rightarrow> real list \<Rightarrow> real list \<Rightarrow> real" where
  "residual p xs ys = sum_list (map2 (\<lambda>x y. (polyval p x - y)\<^sup>2) xs ys)"

definition least_squares :: "real list \<Rightarrow> nat \<Rightarrow> real list \<Rightarrow> real list \<Rightarrow> bool" where
  "least_squares p deg xs ys \<longleftrightarrow>
     length p = Suc deg \<and> (\<forall>q. length q = Suc deg \<longrightarrow> residual p xs ys \<le> residual q xs ys)"

definition fit_points :: "TwoDim \<Rightarrow> real \<times> real \<Rightarrow> real list" where
  "fit_points self ex = mask_idx (probe_wn self) (outside (probe_wn self) ex)"

definition fit_values :: "TwoDim \<Rightarrow> real \<times> real \<Rightarrow> nat \<Rightarrow> nat \<Rightarrow> real list" where
  "fit_values self ex ti col =
     mask_idx (probe_column (cube (spec2d self) ! ti) col) (outside (probe_wn self) ex)"

text \<open>
  The least-squares line in exact arithmetic (\<open>lstsq\<close> above, coefficients reversed to
  highest power first): a solver at degree one for running the correction on numbers.
\<close>

definition line_fit :: "real list \<Rightarrow> real list \<Rightarrow> nat \<Rightarrow> error + real list" where
  "line_fit x y deg = Inr (rev (lstsq (map (\<lambda>v. 1) x) (Const_and x) y))"

section \<open>Construction: the shape check\<close>

text \<open>
  C7. A \<open>spec2d\<close> whose shape is not \<open>(len(t), len(probe_wn), len(pump_wn))\<close> makes the
  constructor raise a value error that carries the actual and the expected shape, and no
  dataset results; every input whose shape conforms is constructed without error.
\<close>

theorem TwoDim_new_shape_check:
  "(shape sp \<noteq> [length ts, length pr, length pu] \<longrightarrow>
      TwoDim_new ts pu pr sp
        = Inl (ValueError_shape (shape sp) [length ts, length pr, length pu]))
   \<and> (shape sp = [length ts, length pr, length pu] \<longrightarrow>
      (\<exists>ds. TwoDim_new ts pu pr sp = Inr ds))"
  by (simp add: TwoDim_new_def attrs_post_init_def Let_def)

theorem TwoDim_new_shape_check_witness:
  "TwoDim_new [0, 1] [5] [7] \<lparr> shape = [2, 1], cube = [[[3]], [[4]]] \<rparr>
     = Inl (ValueError_shape [2, 1] [2, 1, 1])
   \<and> (\<exists>ds. TwoDim_new [0, 1] [5] [7] \<lparr> shape = [2, 1, 1], cube = [[[3]], [[4]]] \<rparr> = Inr ds)"
  using TwoDim_new_shape_check [of "\<lparr> shape = [2, 1], cube = [[[3]], [[4]]] \<rparr>" "[0, 1]" "[7]" "[5]"]
        TwoDim_new_shape_check [of "\<lparr> shape = [2, 1, 1], cube = [[[3]], [[4]]] \<rparr>" "[0, 1]" "[7]" "[5]"]
  by simp

section \<open>Construction: sorting and copying\<close>

lemma argsort_length: "length (argsort xs) = length xs"
  by (simp add: argsort_def)

lemma argsort_set: "set (argsort xs) = {0..<length xs}"
  by (simp add: argsort_def)

lemma argsort_distinct: "distinct (argsort xs)"
  by (simp add: argsort_def)

lemma argsort_sorted: "sorted (take_idx xs (argsort xs))"
  unfolding take_idx_def argsort_def by (rule sorted_sort_key)

lemma argsort_nth_less: "j < length xs \<Longrightarrow> argsort xs ! j < length xs"
  using argsort_set [of xs] argsort_length [of xs] nth_mem [of j "argsort xs"] by auto

lemma take_axes_nth:
  assumes "wf_ndarray a" "shape a = [n, m, k]"
    and "i < n" "j < length i2" "i2 ! j < m" "c < length i1"
  shows "cube (take_axis1 i2 (take_axis2 i1 a)) ! i ! j ! c = cube a ! i ! (i2 ! j) ! (i1 ! c)"
  using assms
  by (simp add: wf_ndarray_def take_axis1_def take_axis2_def take_idx_def)

lemma take_axes_shape:
  "shape a = [n, m, k] \<Longrightarrow> shape (take_axis1 i2 (take_axis2 i1 a)) = [n, length i2, length i1]"
  by (simp add: take_axis1_def take_axis2_def)

lemma attrs_post_init_store_load:
  assumes "valid_ref s r"
  shows "case attrs_post_init (load s r) of
           Inl e \<Rightarrow> attrs_post_init_store s r = Inl e
         | Inr ds \<Rightarrow> (\<exists>r' s'. attrs_post_init_store s r = Inr (r', s') \<and> load s' r' = ds
               \<and> length (vecs s) \<le> t_ref r' \<and> length (vecs s) \<le> pump_wn_ref r'
               \<and> length (vecs s) \<le> probe_wn_ref r' \<and> length (arrs s) \<le> spec2d_ref r'
               \<and> take (length (vecs s)) (vecs s') = vecs s
               \<and> take (length (arrs s)) (arrs s') = arrs s)"
  using assms
  by (simp add: attrs_post_init_def attrs_post_init_store_def load_def valid_ref_def
      new_vec_def new_arr_def Let_def nth_append)

lemma attrs_post_init_conforming:
  assumes "shape (spec2d self) = [length (t self), length (probe_wn self), length (pump_wn self)]"
  shows "attrs_post_init self =
     Inr \<lparr> t = t self,
           pump_wn = take_idx (pump_wn self) (argsort (pump_wn self)),
           probe_wn = take_idx (probe_wn self) (argsort (probe_wn self)),
           spec2d = take_axis1 (argsort (probe_wn self))
                      (take_axis2 (argsort (pump_wn self)) (spec2d self)) \<rparr>"
  using assms by (simp add: attrs_post_init_def Let_def)

text \<open>
  C3 (as the code has it). For every conforming input the constructor returns a dataset
  whose \<open>pump_wn\<close> and \<open>probe_wn\<close> are ascending, each a rearrangement of the given axis
  by a permutation of its indices; \<open>t\<close> keeps the order in which it was given (the
  constructor sorts the two wavenumber axes only); \<open>spec2d[i, j, k]\<close> is the given value at
  the positions the sorted coordinates came from; all four stored arrays live at addresses
  that did not exist before the call, and the arrays of the caller are left as they were.
\<close>

theorem TwoDim_construct_reindex:
  assumes ok: "valid_ref s r"
    and shp: "shape (spec2d (load s r)) =
        [length (t (load s r)), length (probe_wn (load s r)), length (pump_wn (load s r))]"
    and wf: "wf_ndarray (spec2d (load s r))"
  shows "\<exists>r' s'. attrs_post_init_store s r = Inr (r', s')
      \<and> sorted (pump_wn (load s' r')) \<and> sorted (probe_wn (load s' r'))
      \<and> t (load s' r') = t (load s r)
      \<and> pump_wn (load s' r') = take_idx (pump_wn (load s r)) (argsort (pump_wn (load s r)))
      \<and> probe_wn (load s' r') = take_idx (probe_wn (load s r)) (argsort (probe_wn (load s r)))
      \<and> distinct (argsort (pump_wn (load s r)))
      \<and> set (argsort (pump_wn (load s r))) = {0..<length (pump_wn (load s r))}
      \<and> distinct (argsort (probe_wn (load s r)))
      \<and> set (argsort (probe_wn (load s r))) = {0..<length (probe_wn (load s r))}
      \<and> shape (spec2d (load s' r')) = shape (spec2d (load s r))
      \<and> (\<forall>i<length (t (load s r)). \<forall>j<length (probe_wn (load s r)).
            \<forall>c<length (pump_wn (load s r)).
            cube (spec2d (load s' r')) ! i ! j ! c
              = cube (spec2d (load s r)) ! i ! (argsort (probe_wn (load s r)) ! j)
                  ! (argsort (pump_wn (load s r)) ! c))
      \<and> length (vecs s) \<le> t_ref r' \<and> length (vecs s) \<le> pump_wn_ref r'
      \<and> length (vecs s) \<le> probe_wn_ref r' \<and> length (arrs s) \<le> spec2d_ref r'
      \<and> take (length (vecs s)) (vecs s') = vecs s
      \<and> take (length (arrs s)) (arrs s') = arrs s"
proof -
  let ?self = "load s r"
  let ?i1 = "argsort (pump_wn ?self)" and ?i2 = "argsort (probe_wn ?self)"
  let ?ds = "\<lparr> t = t ?self, pump_wn = take_idx (pump_wn ?self) ?i1,
               probe_wn = take_idx (probe_wn ?self) ?i2,
               spec2d = take_axis1 ?i2 (take_axis2 ?i1 (spec2d ?self)) \<rparr>"
  have val: "attrs_post_init ?self = Inr ?ds"
    using shp by (rule attrs_post_init_conforming)
  from attrs_post_init_store_load [OF ok] val
  obtain r' s' where run: "attrs_post_init_store s r = Inr (r', s')"
    and ld: "load s' r' = ?ds"
    and fresh: "length (vecs s) \<le> t_ref r'" "length (vecs s) \<le> pump_wn_ref r'"
      "length (vecs s) \<le> probe_wn_ref r'" "length (arrs s) \<le> spec2d_ref r'"
    and keep: "take (length (vecs s)) (vecs s') = vecs s"
      "take (length (arrs s)) (arrs s') = arrs s"
    by auto
  have cells: "\<forall>i<length (t ?self). \<forall>j<length (probe_wn ?self). \<forall>c<length (pump_wn ?self).
      cube (spec2d ?ds) ! i ! j ! c = cube (spec2d ?self) ! i ! (?i2 ! j) ! (?i1 ! c)"
    using take_axes_nth [OF wf shp] by (simp add: argsort_length argsort_nth_less)
  have shp': "shape (spec2d ?ds) = shape (spec2d ?self)"
    using take_axes_shape [OF shp, of ?i2 ?i1] shp by (simp add: argsort_length)
  have "sorted (pump_wn ?ds)" "sorted (probe_wn ?ds)"
    by (simp_all add: argsort_sorted)
  with run ld fresh keep cells shp' show ?thesis
    by (simp add: argsort_distinct argsort_set)
qed

theorem TwoDim_construct_reindex_witness:
  "valid_ref \<lparr> vecs = [[2, 1], [30, 10, 20], [7, 5]],
        arrs = [\<lparr> shape = [2, 2, 3], cube = [[[1, 2, 3], [4, 5, 6]], [[7, 8, 9], [10, 11, 12]]] \<rparr>] \<rparr>
      \<lparr> t_ref = 0, pump_wn_ref = 1, probe_wn_ref = 2, spec2d_ref = 0 \<rparr>
   \<and> wf_ndarray \<lparr> shape = [2, 2, 3], cube = [[[1, 2, 3], [4, 5, 6]], [[7, 8, 9], [10, 11, 12]]] \<rparr>
   \<and> (\<exists>r' s'. attrs_post_init_store
          \<lparr> vecs = [[2, 1], [30, 10, 20], [7, 5]],
            arrs = [\<lparr> shape = [2, 2, 3], cube = [[[1, 2, 3], [4, 5, 6]], [[7, 8, 9], [10, 11, 12]]] \<rparr>] \<rparr>
          \<lparr> t_ref = 0, pump_wn_ref = 1, probe_wn_ref = 2, spec2d_ref = 0 \<rparr> = Inr (r', s')
        \<and> t (load s' r') = [2, 1]
        \<and> pump_wn (load s' r') = [10, 20, 30]
        \<and> probe_wn (load s' r') = [5, 7]
        \<and> cube (spec2d (load s' r')) ! 1 ! 0 ! 2 = 10
        \<and> 3 \<le> t_ref r' \<and> 1 \<le> spec2d_ref r')"
proof -
  let ?a = "\<lparr> shape = [2, 2, 3], cube = [[[1, 2, 3], [4, 5, 6]], [[7, 8, 9], [10, 11, 12::real]]] \<rparr>"
  let ?s = "\<lparr> vecs = [[2, 1], [30, 10, 20], [7, 5]], arrs = [?a] \<rparr>"
  let ?r = "\<lparr> t_ref = 0, pump_wn_ref = 1, probe_wn_ref = 2, spec2d_ref = 0 \<rparr>"
  have ok: "valid_ref ?s ?r" by (simp add: valid_ref_def)
  have wf: "wf_ndarray ?a" by (simp add: wf_ndarray_def)
  have shp: "shape (spec2d (load ?s ?r)) =
        [length (t (load ?s ?r)), length (probe_wn (load ?s ?r)), length (pump_wn (load ?s ?r))]"
    by (simp add: load_def)
  have wf': "wf_ndarray (spec2d (load ?s ?r))" using wf by (simp add: load_def)
  have i1: "argsort [30, 10, 20] = [1, 2, 0]" by (simp add: argsort_def upt_rec)
  have i2: "argsort [7, 5] = [1, 0]" by (simp add: argsort_def upt_rec)
  from TwoDim_construct_reindex [OF ok shp wf'] obtain r' s' where
    run: "attrs_post_init_store ?s ?r = Inr (r', s')"
    and wt: "t (load s' r') = t (load ?s ?r)"
    and pu: "pump_wn (load s' r') = take_idx (pump_wn (load ?s ?r)) (argsort (pump_wn (load ?s ?r)))"
    and pr: "probe_wn (load s' r') = take_idx (probe_wn (load ?s ?r)) (argsort (probe_wn (load ?s ?r)))"
    and cells: "\<forall>i<length (t (load ?s ?r)). \<forall>j<length (probe_wn (load ?s ?r)).
            \<forall>c<length (pump_wn (load ?s ?r)).
            cube (spec2d (load s' r')) ! i ! j ! c
              = cube (spec2d (load ?s ?r)) ! i ! (argsort (probe_wn (load ?s ?r)) ! j)
                  ! (argsort (pump_wn (load ?s ?r)) ! c)"
    and fresh: "length (vecs ?s) \<le> t_ref r'" "length (arrs ?s) \<le> spec2d_ref r'"
    by blast
  have "cube (spec2d (load s' r')) ! 1 ! 0 ! 2 = 10"
    using cells [rule_format, of 1 0 2] by (simp add: load_def i1 i2)
  moreover have "t (load s' r') = [2, 1]" using wt by (simp add: load_def)
  moreover have "pump_wn (load s' r') = [10, 20, 30]"
    using pu by (simp add: load_def i1 take_idx_def)
  moreover have "probe_wn (load s' r') = [5, 7]"
    using pr by (simp add: load_def i2 take_idx_def)
  moreover have "3 \<le> t_ref r'" "1 \<le> spec2d_ref r'" using fresh by simp_all
  ultimately show ?thesis using run ok wf by blast
qed

text \<open>
  C3 as stated asks for an ascending \<open>t\<close> as well: waiting times given as \<open>[2, 1]\<close> stay
  \<open>[2, 1]\<close>.
\<close>

theorem TwoDim_t_unsorted_counterexample:
  "TwoDim_new [2, 1] [5] [7] \<lparr> shape = [2, 1, 1], cube = [[[3]], [[4]]] \<rparr>
     = Inr \<lparr> t = [2, 1], pump_wn = [5], probe_wn = [7],
             spec2d = \<lparr> shape = [2, 1, 1], cube = [[[3]], [[4]]] \<rparr> \<rparr>
   \<and> \<not> sorted [2, 1 :: real]"
  by (simp add: TwoDim_new_def attrs_post_init_def argsort_def take_idx_def
      take_axis1_def take_axis2_def)

section \<open>Selecting a range\<close>

lemma mask_idx_all:
  "length msk = length xs \<Longrightarrow> \<forall>b \<in> set msk. b \<Longrightarrow> mask_idx xs msk = xs"
  unfolding mask_idx_def
  by (induction msk xs rule: list_induct2) auto

lemma filter_id_all: "\<forall>b \<in> set msk. b \<Longrightarrow> filter id msk = msk"
  by (induction msk) auto

lemma inbetween_length: "length (inbetween a lo hi) = length a"
  by (simp add: inbetween_def)

lemma inbetween_all:
  "\<forall>v \<in> set a. lo \<le> v \<and> v \<le> hi \<Longrightarrow> \<forall>b \<in> set (inbetween a lo hi). b"
  by (auto simp: inbetween_def)

lemma mask_axis1_all:
  assumes "shape a = [n, m, k]" "length msk = m" "\<forall>b \<in> set msk. b"
    and "\<forall>plane \<in> set (cube a). length plane = m"
  shows "mask_axis1 msk a = Inr a"
  using assms by (simp add: mask_axis1_def filter_id_all mask_idx_all map_idI)

lemma mask_axis2_all:
  assumes "shape a = [n, m, k]" "length msk = k" "\<forall>b \<in> set msk. b"
    and "\<forall>plane \<in> set (cube a). \<forall>row \<in> set plane. length row = k"
  shows "mask_axis2 msk a = Inr a"
  using assms by (simp add: mask_axis2_def filter_id_all mask_idx_all map_idI)

lemma take_axes_rows:
  assumes "wf_ndarray a" "shape a = [n, m, k]" "\<forall>j \<in> set i2. j < m"
  shows "\<forall>plane \<in> set (cube (take_axis1 i2 (take_axis2 i1 a))).
     length plane = length i2 \<and> (\<forall>row \<in> set plane. length row = length i1)"
  using assms by (auto simp: wf_ndarray_def take_axis1_def take_axis2_def take_idx_def)

text \<open>
  C8. For a dataset (conforming shape, cells filling the shape), \<open>select_range\<close> without
  \<open>invert\<close> and with ranges that cover every pump and every probe value returns a dataset
  equal, axes and data, to \<open>copy\<close> of the dataset.
\<close>

theorem select_range_full:
  assumes shp: "shape (spec2d self) = [length (t self), length (probe_wn self), length (pump_wn self)]"
    and wf: "wf_ndarray (spec2d self)"
    and pu: "\<forall>v \<in> set (pump_wn self). min pu_lo pu_hi \<le> v \<and> v \<le> max pu_lo pu_hi"
    and pr: "\<forall>v \<in> set (probe_wn self). min pr_lo pr_hi \<le> v \<and> v \<le> max pr_lo pr_hi"
  shows "\<exists>ds. copy self = Inr ds
           \<and> select_range self (pu_lo, pu_hi) (pr_lo, pr_hi) False = Inr (Selected ds)"
proof -
  let ?i1 = "argsort (pump_wn self)" and ?i2 = "argsort (probe_wn self)"
  let ?a = "take_axis1 ?i2 (take_axis2 ?i1 (spec2d self))"
  let ?ds = "\<lparr> t = t self, pump_wn = take_idx (pump_wn self) ?i1,
               probe_wn = take_idx (probe_wn self) ?i2, spec2d = ?a \<rparr>"
  let ?pm = "inbetween (pump_wn self) (min pu_lo pu_hi) (max pu_lo pu_hi)"
  let ?qm = "inbetween (probe_wn self) (min pr_lo pr_hi) (max pr_lo pr_hi)"
  have cp: "copy self = Inr ?ds"
    using shp by (simp add: copy_def TwoDim_new_def attrs_post_init_def Let_def)
  have sh: "shape ?a = [length (t self), length (probe_wn self), length (pump_wn self)]"
    using take_axes_shape [OF shp, of ?i2 ?i1] by (simp add: argsort_length)
  have rows: "\<forall>plane \<in> set (cube ?a). length plane = length (probe_wn self)
       \<and> (\<forall>row \<in> set plane. length row = length (pump_wn self))"
    using take_axes_rows [OF wf shp, of ?i2 ?i1] by (simp add: argsort_length argsort_set)
  have a1: "mask_axis1 ?qm ?a = Inr ?a"
    using rows by (intro mask_axis1_all [OF sh] inbetween_length inbetween_all pr) simp
  have a2: "mask_axis2 ?pm ?a = Inr ?a"
    using rows by (intro mask_axis2_all [OF sh] inbetween_length inbetween_all pu) simp
  have v1: "mask_vec (pump_wn ?ds) ?pm = Inr (pump_wn ?ds)"
    using inbetween_all [OF pu]
    by (simp add: mask_vec_def inbetween_length take_idx_def argsort_length mask_idx_all)
  have v2: "mask_vec (probe_wn ?ds) ?qm = Inr (probe_wn ?ds)"
    using inbetween_all [OF pr]
    by (simp add: mask_vec_def inbetween_length take_idx_def argsort_length mask_idx_all)
  have "select_range self (pu_lo, pu_hi) (pr_lo, pr_hi) False = Inr (Selected ?ds)"
    using a1 a2 v1 v2 by (simp add: select_range_def cp)
  with cp show ?thesis by blast
qed

theorem select_range_full_witness:
  "wf_ndarray \<lparr> shape = [1, 2, 3], cube = [[[1, 2, 5], [3, 4, 6]]] \<rparr>
   \<and> min 30 10 \<le> Min (set [10, 20, 30 :: real]) \<and> Max (set [10, 20, 30 :: real]) \<le> max 30 10
   \<and> min 0 9 \<le> Min (set [7, 8 :: real]) \<and> Max (set [7, 8 :: real]) \<le> max 0 9
   \<and> select_range \<lparr> t = [0], pump_wn = [10, 20, 30], probe_wn = [7, 8],
          spec2d = \<lparr> shape = [1, 2, 3], cube = [[[1, 2, 5], [3, 4, 6]]] \<rparr> \<rparr> (30, 10) (0, 9) False
       = Inr (Selected \<lparr> t = [0], pump_wn = [10, 20, 30], probe_wn = [7, 8],
          spec2d = \<lparr> shape = [1, 2, 3], cube = [[[1, 2, 5], [3, 4, 6]]] \<rparr> \<rparr>)"
proof -
  let ?a = "\<lparr> shape = [1, 2, 3], cube = [[[1, 2, 5], [3, 4, 6 :: real]]] \<rparr>"
  let ?self = "\<lparr> t = [0], pump_wn = [10, 20, 30], probe_wn = [7, 8], spec2d = ?a \<rparr>"
  have shp: "shape (spec2d ?self) = [length (t ?self), length (probe_wn ?self), length (pump_wn ?self)]"
    by simp
  have wf: "wf_ndarray (spec2d ?self)" by (simp add: wf_ndarray_def)
  have pu: "\<forall>v \<in> set (pump_wn ?self). min 30 10 \<le> v \<and> v \<le> max 30 10" by simp
  have pr: "\<forall>v \<in> set (probe_wn ?self). min 0 9 \<le> v \<and> v \<le> max 0 9" by simp
  have cp: "copy ?self = Inr ?self"
    by (simp add: copy_def TwoDim_new_def attrs_post_init_def argsort_def upt_rec
        take_idx_def take_axis1_def take_axis2_def)
  from select_range_full [OF shp wf pu pr] cp wf show ?thesis by simp
qed

text \<open>
  With \<open>invert\<close>, \<open>not\<close> is applied to the mask arrays. As soon as the pump axis has more
  than one value this is the value error of an ambiguous truth value, raised before the
  dataset is copied.
\<close>

lemma select_range_invert_raises:
  assumes "length (pump_wn self) > 1" "length (probe_wn self) > 1"
  shows "select_range self pump_range probe_range True = Inl ValueError_truth_value"
proof -
  obtain x y zs where "pump_wn self = x # y # zs"
    using assms(1) by (cases "pump_wn self"; cases "tl (pump_wn self)") auto
  then show ?thesis
    by (simp add: select_range_def inbetween_def py_not_array_def)
qed

lemma select_range_invert_raises_example:
  "1 < length [10, 20, 30 :: real] \<and> 1 < length [7, 8 :: real]
   \<and> select_range \<lparr> t = [0], pump_wn = [10, 20, 30], probe_wn = [7, 8],
          spec2d = \<lparr> shape = [1, 2, 3], cube = [[[1, 2, 5], [3, 4, 6]]] \<rparr> \<rparr> (15, 35) (0, 9) True
       = Inl ValueError_truth_value"
  using select_range_invert_raises [of "\<lparr> t = [0], pump_wn = [10, 20, 30], probe_wn = [7, 8],
          spec2d = \<lparr> shape = [1, 2, 3], cube = [[[1, 2, 5], [3, 4, 6]]] \<rparr> \<rparr>" "(15, 35)" "(0, 9)"]
  by simp

text \<open>
  C2. The claim has \<open>invert=True\<close> return the dataset that \<open>invert=False\<close> returns. On a
  two-by-two dataset the call with \<open>invert=True\<close> raises and returns no dataset at all,
  where the call with \<open>invert=False\<close> returns the selected pump column.
\<close>

theorem select_range_invert_failing_input:
  "select_range \<lparr> t = [0], pump_wn = [1, 2], probe_wn = [1, 2],
          spec2d = \<lparr> shape = [1, 2, 2], cube = [[[1, 2], [3, 4]]] \<rparr> \<rparr> (2, 3) (0, 3) True
     = Inl ValueError_truth_value
   \<and> select_range \<lparr> t = [0], pump_wn = [1, 2], probe_wn = [1, 2],
          spec2d = \<lparr> shape = [1, 2, 2], cube = [[[1, 2], [3, 4]]] \<rparr> \<rparr> (2, 3) (0, 3) False
     = Inr (Selected \<lparr> t = [0], pump_wn = [2], probe_wn = [1, 2],
          spec2d = \<lparr> shape = [1, 2, 1], cube = [[[2], [4]]] \<rparr> \<rparr>)"
  by (simp add: select_range_def inbetween_def py_not_array_def copy_def TwoDim_new_def
      attrs_post_init_def argsort_def upt_rec take_idx_def take_axis1_def take_axis2_def
      mask_axis1_def mask_axis2_def mask_vec_def mask_idx_def)

section \<open>Saving text files\<close>

text \<open>
  C9. When the destination exists and is not a directory, \<open>save_txt\<close> raises its value
  error and the file system is as before: no file has been written.
\<close>

theorem save_txt_existing_file:
  "fs p = Some (File c) \<Longrightarrow>
     save_txt fmt self p fs = (Inl (ValueError_not_a_directory p), fs)"
  by (simp add: save_txt_def is_dir_def)

theorem save_txt_existing_file_witness:
  "(Map.empty([''out''] \<mapsto> File [[1]])) [''out''] = Some (File [[1]])
   \<and> save_txt (\<lambda>x. ''0.500'') \<lparr> t = [0.5], pump_wn = [10, 20, 30], probe_wn = [7, 8],
          spec2d = \<lparr> shape = [1, 2, 3], cube = [[[1, 2, 5], [3, 4, 6]]] \<rparr> \<rparr>
        [''out''] (Map.empty([''out''] \<mapsto> File [[1]]))
      = (Inl (ValueError_not_a_directory [''out'']), Map.empty([''out''] \<mapsto> File [[1]]))"
  using save_txt_existing_file [of "Map.empty([''out''] \<mapsto> File [[1]])" "[''out'']" "[[1]]"
      "\<lambda>x. ''0.500''" "\<lparr> t = [0.5], pump_wn = [10, 20, 30], probe_wn = [7, 8],
          spec2d = \<lparr> shape = [1, 2, 3], cube = [[[1, 2, 5], [3, 4, 6]]] \<rparr> \<rparr>"]
  by simp

text \<open>
  C10 (as the code has it). For every destination that is not an existing directory, a
  missing path included, \<open>save_txt\<close> raises the value error, changes nothing and so never
  creates the directory, and \<open>mkdir\<close> is not called; \<open>save_txt\<close> returns normally only when
  the directory existed before the call. \<open>mkdir\<close>, the second operand of the \<open>or\<close>, is
  called exactly when the destination is an existing directory, which is the path that does
  not raise the value error. The last conjunct says that \<open>not_dir_or_mkdir\<close> is the
  condition of \<open>save_txt\<close>.
\<close>

theorem save_txt_not_a_directory:
  "(fs p \<noteq> Some Dir \<longrightarrow>
      save_txt fmt self p fs = (Inl (ValueError_not_a_directory p), fs)
      \<and> snd (save_txt fmt self p fs) p \<noteq> Some Dir
      \<and> Called_mkdir \<notin> set (snd (snd (not_dir_or_mkdir fs p))))
   \<and> (fst (save_txt fmt self p fs) = Inr () \<longrightarrow>
      fs p = Some Dir \<and> Called_mkdir \<in> set (snd (snd (not_dir_or_mkdir fs p))))
   \<and> (Called_mkdir \<in> set (snd (snd (not_dir_or_mkdir fs p))) \<longleftrightarrow> fs p = Some Dir)
   \<and> save_txt fmt self p fs =
       (case not_dir_or_mkdir fs p of
          (Inl e, fs', calls) \<Rightarrow> (Inl e, fs')
        | (Inr b, fs', calls) \<Rightarrow>
            if b then (Inl (ValueError_not_a_directory p), fs')
            else (case shape (spec2d self) of
                    [] \<Rightarrow> (Inl IndexError, fs')
                  | n # _ \<Rightarrow> save_each fmt self p [0..<n] fs'))"
  by (auto simp: save_txt_def not_dir_or_mkdir_def is_dir_def split: sum.splits)

theorem save_txt_not_a_directory_witness:
  "(Map.empty :: filesystem) [''out''] \<noteq> Some Dir
   \<and> save_txt (\<lambda>x. ''0.500'') \<lparr> t = [0.5], pump_wn = [10, 20, 30], probe_wn = [7, 8],
          spec2d = \<lparr> shape = [1, 2, 3], cube = [[[1, 2, 5], [3, 4, 6]]] \<rparr> \<rparr>
        [''out''] Map.empty
      = (Inl (ValueError_not_a_directory [''out'']), Map.empty)
   \<and> snd (snd (not_dir_or_mkdir Map.empty [''out''])) = [Called_is_dir]
   \<and> fst (save_txt (\<lambda>x. ''0.500'') \<lparr> t = [0.5], pump_wn = [10, 20, 30], probe_wn = [7, 8],
          spec2d = \<lparr> shape = [1, 2, 3], cube = [[[1, 2, 5], [3, 4, 6]]] \<rparr> \<rparr>
        [''out''] (Map.empty([''out''] \<mapsto> Dir))) = Inr ()
   \<and> (Map.empty([''out''] \<mapsto> Dir)) [''out''] = Some Dir"
proof -
  let ?ds = "\<lparr> t = [0.5], pump_wn = [10, 20, 30], probe_wn = [7, 8],
          spec2d = \<lparr> shape = [1, 2, 3], cube = [[[1, 2, 5], [3, 4, 6]]] \<rparr> \<rparr>"
  have ok: "fst (save_txt (\<lambda>x. ''0.500'') ?ds [''out''] (Map.empty([''out''] \<mapsto> Dir))) = Inr ()"
    by (simp add: save_txt_def is_dir_def mkdir_parents_exist_ok_def upt_rec
        save_single_txt_def block_def savetxt_def)
  have calls: "snd (snd (not_dir_or_mkdir Map.empty [''out''])) = [Called_is_dir]"
    by (simp add: not_dir_or_mkdir_def is_dir_def)
  from save_txt_not_a_directory [of Map.empty "[''out'']" "\<lambda>x. ''0.500''" ?ds]
    save_txt_not_a_directory [of "Map.empty([''out''] \<mapsto> Dir)" "[''out'']" "\<lambda>x. ''0.500''" ?ds]
    ok calls
  show ?thesis by simp
qed

text \<open>
  C10 as stated has \<open>mkdir\<close> never executed on the path that does not raise. On an existing
  directory \<open>save_txt\<close> returns normally, and the condition has called \<open>is_dir\<close> and then
  \<open>mkdir\<close>.
\<close>

theorem save_txt_mkdir_called_counterexample:
  "fst (save_txt (\<lambda>x. ''0.500'') \<lparr> t = [0.5], pump_wn = [10, 20, 30], probe_wn = [7, 8],
          spec2d = \<lparr> shape = [1, 2, 3], cube = [[[1, 2, 5], [3, 4, 6]]] \<rparr> \<rparr>
        [''out''] (Map.empty([''out''] \<mapsto> Dir))) = Inr ()
   \<and> snd (snd (not_dir_or_mkdir (Map.empty([''out''] \<mapsto> Dir)) [''out'']))
       = [Called_is_dir, Called_mkdir]"
  by (simp add: save_txt_def not_dir_or_mkdir_def is_dir_def mkdir_parents_exist_ok_def upt_rec
      save_single_txt_def block_def savetxt_def)

section \<open>The exponential fit of the slopes\<close>

lemma endswith_append: "endswith (pre @ suf) suf"
  by (simp add: endswith_def)

lemma exp_terms_ok:
  "i + length vs \<le> 7 \<Longrightarrow> \<exists>ps. exp_terms len i vs = Inr ps"
proof (induction vs arbitrary: i)
  case Nil
  then show ?case by simp
next
  case (Cons v vs)
  from Cons.prems have "Suc i + length vs \<le> 7" by simp
  from Cons.IH [OF this] obtain qs where "exp_terms len (Suc i) vs = Inr qs" by blast
  with Cons.prems show ?case by (simp add: Let_def)
qed

lemma exp_terms_names:
  "exp_terms len i vs = Inr ps \<Longrightarrow>
     \<forall>nv \<in> set ps. fst nv \<noteq> ''c''
        \<and> (endswith (fst nv) ''decay'' \<or> endswith (fst nv) ''amplitude'')"
proof (induction vs arbitrary: i ps)
  case Nil
  then show ?case by simp
next
  case (Cons v vs)
  from Cons.prems obtain qs where rest: "exp_terms len (Suc i) vs = Inr qs"
    and ps: "ps = ([''abcdefg'' ! i] @ ''_'' @ ''amplitude'', 0.5 / real len)
                  # ([''abcdefg'' ! i] @ ''_'' @ ''decay'', v) # qs"
    by (auto simp: Let_def split: if_splits sum.splits)
  have "endswith ([''abcdefg'' ! i] @ ''_'' @ ''amplitude'') ''amplitude''"
    using endswith_append [of "[''abcdefg'' ! i] @ ''_''" "''amplitude''"] by simp
  moreover have "endswith ([''abcdefg'' ! i] @ ''_'' @ ''decay'') ''decay''"
    using endswith_append [of "[''abcdefg'' ! i] @ ''_''" "''decay''"] by simp
  ultimately show ?case using Cons.IH [OF rest] ps by auto
qed

lemma exp_terms_length:
  "exp_terms len i vs = Inr ps \<Longrightarrow> length ps = 2 * length vs"
  by (induction vs arbitrary: i ps) (auto simp: Let_def split: if_splits sum.splits)

text \<open>
  C4 (as the code has it). With at most seven decay times and, under \<open>use_const\<close>, at least
  one slope, \<open>exp_fit\<close> hands to the fit a model whose constant \<open>c\<close>, when \<open>use_const\<close> is
  requested, starts at the larger of the smallest slope and zero and is free to vary, and
  otherwise is fixed at zero; every amplitude and every decay constant has the lower bound
  zero and varies; the weights are \<open>1 / slope_errors\<close> when errors are present and
  \<open>use_weights\<close> is set, and absent otherwise. \<open>exp_fit\<close> returns and stores what the fit
  returns, and raises what it raises.
\<close>

theorem exp_fit_parameters:
  assumes taus: "length start_taus \<le> 7"
    and nonempty: "use_const \<longrightarrow> slopes self \<noteq> []"
  shows "\<exists>c_par others.
      exp_fit fit self start_taus use_const use_weights =
        (case fit \<lparr> fit_params = c_par # others, fit_data = slopes self, fit_x = wt self,
                    fit_weights = (case slope_errors self of
                               Some errs \<Rightarrow> if use_weights then Some (map reciprocal errs) else None
                             | None \<Rightarrow> None) \<rparr> of
           Inl e \<Rightarrow> (Inl e, self)
         | Inr res \<Rightarrow> (Inr res, self\<lparr> exp_fit_result := Some res \<rparr>))
      \<and> name c_par = ''c'' \<and> lower c_par = None
      \<and> (if use_const
           then init_value c_par = max (Min (set (slopes self))) 0 \<and> vary c_par
           else init_value c_par = 0 \<and> \<not> vary c_par)
      \<and> length others = 2 * length start_taus
      \<and> (\<forall>p \<in> set others. name p \<noteq> ''c'' \<and> lower p = Some 0 \<and> vary p
             \<and> (endswith (name p) ''decay'' \<or> endswith (name p) ''amplitude''))"
proof -
  from exp_terms_ok [of 0 start_taus "length start_taus"] taus
  obtain ps where ps: "exp_terms (length start_taus) 0 start_taus = Inr ps" by auto
  let ?c = "if use_const then max (Min (set (slopes self))) 0 else 0"
  let ?cp = "hinted use_const (''c'', ?c)"
  let ?others = "map (hinted use_const) ps"
  have run: "exp_fit fit self start_taus use_const use_weights =
        (case fit \<lparr> fit_params = ?cp # ?others, fit_data = slopes self, fit_x = wt self,
                    fit_weights = (case slope_errors self of
                               Some errs \<Rightarrow> if use_weights then Some (map reciprocal errs) else None
                             | None \<Rightarrow> None) \<rparr> of
           Inl e \<Rightarrow> (Inl e, self)
         | Inr res \<Rightarrow> (Inr res, self\<lparr> exp_fit_result := Some res \<rparr>))"
    using ps nonempty by (cases use_const) (simp_all add: exp_fit_def Let_def)
  have cpar: "name ?cp = ''c''" "lower ?cp = None"
    "if use_const then init_value ?cp = max (Min (set (slopes self))) 0 \<and> vary ?cp
     else init_value ?cp = 0 \<and> \<not> vary ?cp"
    by (simp_all add: hinted_def endswith_def)
  have len: "length ?others = 2 * length start_taus"
    using exp_terms_length [OF ps] by simp
  have oth: "\<forall>p \<in> set ?others. name p \<noteq> ''c'' \<and> lower p = Some 0 \<and> vary p
             \<and> (endswith (name p) ''decay'' \<or> endswith (name p) ''amplitude'')"
    using exp_terms_names [OF ps] by (auto simp: hinted_def)
  show ?thesis
    by (rule exI [of _ ?cp], rule exI [of _ ?others]) (intro conjI run cpar len oth)
qed

text \<open>
  An instance with six points for five free parameters. In place of the optimiser stands
  \<open>Inr\<close>, the fit that returns the call it was given, so that the call can be read off.
\<close>

theorem exp_fit_parameters_witness:
  "length [1, 10 :: real] \<le> 7
   \<and> exp_fit Inr \<lparr> wt = [0, 1, 2, 5, 10, 20], slopes = [0.5, 0.4, 0.3, 0.25, 0.22, 0.2],
                slope_errors = Some [Finite 0.1, Finite 0.2, Finite 0.5, Finite 0.1, Finite 0.2,
                                     Finite 0.5],
                exp_fit_result = None \<rparr> [1, 10] True True
     = (Inr \<lparr> fit_params =
          [\<lparr> name = ''c'', init_value = 0.2, vary = True, lower = None \<rparr>,
           \<lparr> name = ''a_amplitude'', init_value = 0.25, vary = True, lower = Some 0 \<rparr>,
           \<lparr> name = ''a_decay'', init_value = 1, vary = True, lower = Some 0 \<rparr>,
           \<lparr> name = ''b_amplitude'', init_value = 0.25, vary = True, lower = Some 0 \<rparr>,
           \<lparr> name = ''b_decay'', init_value = 10, vary = True, lower = Some 0 \<rparr>],
          fit_data = [0.5, 0.4, 0.3, 0.25, 0.22, 0.2], fit_x = [0, 1, 2, 5, 10, 20],
          fit_weights = Some [Finite 10, Finite 5, Finite 2, Finite 10, Finite 5, Finite 2] \<rparr>,
        \<lparr> wt = [0, 1, 2, 5, 10, 20], slopes = [0.5, 0.4, 0.3, 0.25, 0.22, 0.2],
          slope_errors = Some [Finite 0.1, Finite 0.2, Finite 0.5, Finite 0.1, Finite 0.2,
                               Finite 0.5],
          exp_fit_result = Some \<lparr> fit_params =
          [\<lparr> name = ''c'', init_value = 0.2, vary = True, lower = None \<rparr>,
           \<lparr> name = ''a_amplitude'', init_value = 0.25, vary = True, lower = Some 0 \<rparr>,
           \<lparr> name = ''a_decay'', init_value = 1, vary = True, lower = Some 0 \<rparr>,
           \<lparr> name = ''b_amplitude'', init_value = 0.25, vary = True, lower = Some 0 \<rparr>,
           \<lparr> name = ''b_decay'', init_value = 10, vary = True, lower = Some 0 \<rparr>],
          fit_data = [0.5, 0.4, 0.3, 0.25, 0.22, 0.2], fit_x = [0, 1, 2, 5, 10, 20],
          fit_weights = Some [Finite 10, Finite 5, Finite 2, Finite 10, Finite 5, Finite 2] \<rparr> \<rparr>)"
proof -
  let ?self = "\<lparr> wt = [0, 1, 2, 5, 10, 20], slopes = [0.5, 0.4, 0.3, 0.25, 0.22, 0.2 :: real],
                slope_errors = Some [Finite 0.1, Finite 0.2, Finite 0.5, Finite 0.1, Finite 0.2,
                                     Finite 0.5],
                exp_fit_result = None :: fit_call option \<rparr>"
  have a: "length [1, 10 :: real] \<le> 7" by simp
  have b: "True \<longrightarrow> slopes ?self \<noteq> []" by simp
  from exp_fit_parameters [OF a b, of Inr True]
  obtain c_par others where
    run: "exp_fit Inr ?self [1, 10] True True =
        (case Inr \<lparr> fit_params = c_par # others, fit_data = slopes ?self, fit_x = wt ?self,
                    fit_weights = (case slope_errors ?self of
                               Some errs \<Rightarrow> if True then Some (map reciprocal errs) else None
                             | None \<Rightarrow> None) \<rparr> of
           Inl e \<Rightarrow> (Inl e, ?self)
         | Inr res \<Rightarrow> (Inr res, ?self\<lparr> exp_fit_result := Some res \<rparr>))"
    by (elim exE conjE)
  have ev: "exp_fit Inr ?self [1, 10] True True
     = (Inr \<lparr> fit_params =
          [\<lparr> name = ''c'', init_value = 0.2, vary = True, lower = None \<rparr>,
           \<lparr> name = ''a_amplitude'', init_value = 0.25, vary = True, lower = Some 0 \<rparr>,
           \<lparr> name = ''a_decay'', init_value = 1, vary = True, lower = Some 0 \<rparr>,
           \<lparr> name = ''b_amplitude'', init_value = 0.25, vary = True, lower = Some 0 \<rparr>,
           \<lparr> name = ''b_decay'', init_value = 10, vary = True, lower = Some 0 \<rparr>],
          fit_data = [0.5, 0.4, 0.3, 0.25, 0.22, 0.2], fit_x = [0, 1, 2, 5, 10, 20],
          fit_weights = Some [Finite 10, Finite 5, Finite 2, Finite 10, Finite 5, Finite 2] \<rparr>,
        ?self\<lparr> exp_fit_result := Some \<lparr> fit_params =
          [\<lparr> name = ''c'', init_value = 0.2, vary = True, lower = None \<rparr>,
           \<lparr> name = ''a_amplitude'', init_value = 0.25, vary = True, lower = Some 0 \<rparr>,
           \<lparr> name = ''a_decay'', init_value = 1, vary = True, lower = Some 0 \<rparr>,
           \<lparr> name = ''b_amplitude'', init_value = 0.25, vary = True, lower = Some 0 \<rparr>,
           \<lparr> name = ''b_decay'', init_value = 10, vary = True, lower = Some 0 \<rparr>],
          fit_data = [0.5, 0.4, 0.3, 0.25, 0.22, 0.2], fit_x = [0, 1, 2, 5, 10, 20],
          fit_weights = Some [Finite 10, Finite 5, Finite 2, Finite 10, Finite 5, Finite 2] \<rparr> \<rparr>)"
    by (simp add: exp_fit_def hinted_def endswith_def Let_def)
  from run ev a show ?thesis by simp
qed

text \<open>
  C4 as stated has the constant fixed at the smallest slope under \<open>use_const\<close>: with the
  slopes \<open>[0.5, 0.2, 0, -0.1, -0.15]\<close> the constant handed to the fit starts at \<open>0\<close>, not at
  \<open>-0.15\<close>, and it varies.
\<close>

theorem exp_fit_constant_varies_counterexample:
  "fst (exp_fit Inr \<lparr> wt = [0, 1, 2, 3, 4], slopes = [0.5, 0.2, 0, -0.1, -0.15],
                     slope_errors = None, exp_fit_result = None \<rparr> [1] True True)
     = Inr \<lparr> fit_params =
          [\<lparr> name = ''c'', init_value = 0, vary = True, lower = None \<rparr>,
           \<lparr> name = ''a_amplitude'', init_value = 0.5, vary = True, lower = Some 0 \<rparr>,
           \<lparr> name = ''a_decay'', init_value = 1, vary = True, lower = Some 0 \<rparr>],
          fit_data = [0.5, 0.2, 0, -0.1, -0.15], fit_x = [0, 1, 2, 3, 4], fit_weights = None \<rparr>
   \<and> Min (set [0.5, 0.2, 0, -0.1, -0.15 :: real]) = -0.15"
  by (simp add: exp_fit_def hinted_def endswith_def Let_def)

section \<open>Centre line slope of one spectrum\<close>

text \<open>
  When the first part of \<open>single_cls\<close> has gone through (the nearest waiting time \<open>ti\<close>,
  the transposed and sign-adjusted slice \<open>spec\<close>, the pump window \<open>pu_idx\<close>, and the list
  \<open>l\<close> of located positions with their errors, one pair for every selected pump value),
  \<open>single_cls\<close> is the regression of those positions against the selected pump values
  minus their mean.
\<close>

lemma single_cls_regression_step:
  assumes "fi (t self) tq = Inr ti"
    and "slice_T (spec2d self) ti = Inr spec0"
    and "spec = (if mode = Mode_pos then map (map uminus) spec0 else spec0)"
    and "row_mins spec = Inr mins"
    and "argmin mins = Inr j"
    and "pu_idx = (case pu_range of
                     Halfwidth w \<Rightarrow> around (pump_wn self) (pump_wn self ! j) w
                   | Span lo hi \<Rightarrow> inbetween (pump_wn self) lo hi)"
    and "locate_all (locate peak_fit quad_vertex (probe_wn self) pr_range method)
           (mask_idx spec pu_idx) = Inr l"
    and "sel = mask_idx (pump_wn self) pu_idx"
    and "x = map (\<lambda>v. v - mean sel) sel"
  shows "single_cls peak_fit quad_vertex regress self tq pr_range pu_range mode method
           = cls_regression regress l x (mean sel)"
  using assms by (simp add: single_cls_def Let_def)

text \<open>
  C6. In \<open>single_cls\<close> the located positions \<open>map fst l\<close> are regressed against the
  recentred pump values \<open>x\<close> by weighted least squares with the weights \<open>1 / yerr**2\<close>
  exactly when every error in \<open>map snd l\<close> is finite, and by ordinary least squares as soon
  as one error is not. The choice raises nothing: in either case \<open>single_cls\<close> returns
  whenever the chosen fit returns its parameters, and every result of \<open>single_cls\<close> carries
  the model chosen by this rule together with the parameters that the fit returned for it.
\<close>

theorem single_cls_weighting:
  assumes ti: "fi (t self) tq = Inr ti"
    and sl: "slice_T (spec2d self) ti = Inr spec0"
    and sp: "spec = (if mode = Mode_pos then map (map uminus) spec0 else spec0)"
    and mins: "row_mins spec = Inr mins"
    and j: "argmin mins = Inr j"
    and pu: "pu_idx = (case pu_range of
                     Halfwidth w \<Rightarrow> around (pump_wn self) (pump_wn self ! j) w
                   | Span lo hi \<Rightarrow> inbetween (pump_wn self) lo hi)"
    and loc: "locate_all (locate peak_fit quad_vertex (probe_wn self) pr_range method)
           (mask_idx spec pu_idx) = Inr l"
    and ne: "l \<noteq> []"
    and sel: "sel = mask_idx (pump_wn self) pu_idx"
    and x: "x = map (\<lambda>v. v - mean sel) sel"
  shows "(list_all isfinite (map snd l)
          \<and> regress (WLS (map fst l) (add_constant x) (map inv_square (map snd l))) = Inr (p0 # ps)
        \<longrightarrow> (\<exists>r. single_cls peak_fit quad_vertex regress self tq pr_range pu_range mode method = Inr r
              \<and> reg_model (reg_result r)
                  = WLS (map fst l) (add_constant x) (map inv_square (map snd l))
              \<and> params (reg_result r) = p0 # ps
              \<and> max_pos r = map fst l \<and> max_pos_err r = map snd l
              \<and> recentered_pump_wn r = x))
     \<and> (\<not> list_all isfinite (map snd l)
          \<and> regress (OLS (map fst l) (add_constant x)) = Inr (p0 # ps)
        \<longrightarrow> (\<exists>r. single_cls peak_fit quad_vertex regress self tq pr_range pu_range mode method = Inr r
              \<and> reg_model (reg_result r) = OLS (map fst l) (add_constant x)
              \<and> params (reg_result r) = p0 # ps
              \<and> max_pos r = map fst l \<and> max_pos_err r = map snd l
              \<and> recentered_pump_wn r = x))
     \<and> (\<forall>r. single_cls peak_fit quad_vertex regress self tq pr_range pu_range mode method = Inr r
        \<longrightarrow> max_pos r = map fst l \<and> max_pos_err r = map snd l \<and> recentered_pump_wn r = x
          \<and> (list_all isfinite (max_pos_err r) \<longrightarrow>
                reg_model (reg_result r)
                  = WLS (max_pos r) (add_constant x) (map inv_square (max_pos_err r)))
          \<and> (\<not> list_all isfinite (max_pos_err r) \<longrightarrow>
                reg_model (reg_result r) = OLS (max_pos r) (add_constant x))
          \<and> regress (reg_model (reg_result r)) = Inr (params (reg_result r)))"
proof -
  have run: "single_cls peak_fit quad_vertex regress self tq pr_range pu_range mode method
           = cls_regression regress l x (mean sel)"
    using ti sl sp mins j pu loc sel x by (rule single_cls_regression_step)
  show ?thesis
    unfolding run using ne
    by (auto simp: cls_regression_def regression_model_def Let_def split: sum.splits list.splits)
qed

text \<open>
  Two runs on the same spectrum with the method \<open>'fit'\<close>. In the first the peak fit
  reports no standard error for the slice centred at 20, which becomes not-a-number and
  switches the regression to ordinary least squares; in the second it reports the error 2
  throughout and the regression is weighted with 1/4.
\<close>

theorem single_cls_weighting_witness:
  "fi [0] 0 = Inr 0
   \<and> locate_all (locate (\<lambda>skew data xs c amp. Inr (c, if c = 20 then None else Some (Finite 2)))
                  (\<lambda>logscale xs ys. Inr 0) [10, 20, 30] (Halfwidth 0.5) Fit)
         [[-1, 0, 0], [0, -1, 0], [0, 0, -1]]
       = Inr [(10, Finite 2), (20, NaN), (30, Finite 2)]
   \<and> (\<exists>r. single_cls (\<lambda>skew data xs c amp. Inr (c, if c = 20 then None else Some (Finite 2)))
            (\<lambda>logscale xs ys. Inr 0) exact_regress
            \<lparr> t = [0], pump_wn = [1, 2, 3], probe_wn = [10, 20, 30],
              spec2d = \<lparr> shape = [1, 3, 3], cube = [[[-1, 0, 0], [0, -1, 0], [0, 0, -1]]] \<rparr> \<rparr>
            0 (Halfwidth 0.5) (Halfwidth 5) Mode_neg Fit = Inr r
        \<and> reg_model (reg_result r) = OLS [10, 20, 30] (Const_and [-1, 0, 1])
        \<and> max_pos_err r = [Finite 2, NaN, Finite 2]
        \<and> params (reg_result r) = [20, 10])
   \<and> (\<exists>r. single_cls (\<lambda>skew data xs c amp. Inr (c, Some (Finite 2)))
            (\<lambda>logscale xs ys. Inr 0) exact_regress
            \<lparr> t = [0], pump_wn = [1, 2, 3], probe_wn = [10, 20, 30],
              spec2d = \<lparr> shape = [1, 3, 3], cube = [[[-1, 0, 0], [0, -1, 0], [0, 0, -1]]] \<rparr> \<rparr>
            0 (Halfwidth 0.5) (Halfwidth 5) Mode_neg Fit = Inr r
        \<and> reg_model (reg_result r)
            = WLS [10, 20, 30] (Const_and [-1, 0, 1]) [Finite (1 / 4), Finite (1 / 4), Finite (1 / 4)]
        \<and> max_pos_err r = [Finite 2, Finite 2, Finite 2]
        \<and> params (reg_result r) = [20, 10])"
proof -
  let ?pfA = "\<lambda>(skew :: bool) (data :: real list) (xs :: real list) (c :: real) (amp :: real).
      Inr (c, if c = 20 then None else Some (Finite 2)) :: error + real \<times> float64 option"
  let ?pfB = "\<lambda>(skew :: bool) (data :: real list) (xs :: real list) (c :: real) (amp :: real).
      Inr (c, Some (Finite 2)) :: error + real \<times> float64 option"
  let ?qv = "\<lambda>(logscale :: bool) (xs :: real list) (ys :: real list). Inr 0 :: error + real"
  let ?a = "\<lparr> shape = [1, 3, 3], cube = [[[-1, 0, 0], [0, -1, 0], [0, 0, -1 :: real]]] \<rparr>"
  let ?self = "\<lparr> t = [0], pump_wn = [1, 2, 3], probe_wn = [10, 20, 30], spec2d = ?a \<rparr>"
  let ?spec = "[[-1, 0, 0], [0, -1, 0], [0, 0, -1 :: real]]"
  let ?x = "[-1, 0, 1 :: real]"
  let ?lA = "[(10 :: real, Finite 2), (20, NaN), (30, Finite 2)]"
  let ?lB = "[(10 :: real, Finite 2), (20, Finite 2), (30, Finite 2)]"
  have ti: "fi (t ?self) 0 = Inr 0" by (simp add: fi_def argmin_def)
  have ti0: "fi [0] 0 = Inr 0" by (simp add: fi_def argmin_def)
  have sl: "slice_T (spec2d ?self) 0 = Inr ?spec" by (simp add: slice_T_def upt_rec)
  have sp: "?spec = (if Mode_neg = Mode_pos then map (map uminus) ?spec else ?spec)" by simp
  have mins: "row_mins ?spec = Inr [-1, -1, -1]" by (simp add: row_mins_def)
  have j: "argmin [-1, -1, -1] = Inr 0" by (simp add: argmin_def)
  have pu: "[True, True, True] = (case Halfwidth 5 of
                     Halfwidth w \<Rightarrow> around (pump_wn ?self) (pump_wn ?self ! 0) w
                   | Span lo hi \<Rightarrow> inbetween (pump_wn ?self) lo hi)"
    by (simp add: around_def)
  have msk: "mask_idx ?spec [True, True, True] = ?spec" by (simp add: mask_idx_def)
  have locA0: "locate_all (locate ?pfA ?qv [10, 20, 30] (Halfwidth 0.5) Fit) ?spec = Inr ?lA"
    by (simp add: locate_def argmin_def around_def mask_idx_def average_def)
  have locB0: "locate_all (locate ?pfB ?qv [10, 20, 30] (Halfwidth 0.5) Fit) ?spec = Inr ?lB"
    by (simp add: locate_def argmin_def around_def mask_idx_def average_def)
  have locA: "locate_all (locate ?pfA ?qv (probe_wn ?self) (Halfwidth 0.5) Fit)
           (mask_idx ?spec [True, True, True]) = Inr ?lA"
    using locA0 by (simp only: msk TwoDim.simps)
  have locB: "locate_all (locate ?pfB ?qv (probe_wn ?self) (Halfwidth 0.5) Fit)
           (mask_idx ?spec [True, True, True]) = Inr ?lB"
    using locB0 by (simp only: msk TwoDim.simps)
  have sel: "[1, 2, 3] = mask_idx (pump_wn ?self) [True, True, True]" by (simp add: mask_idx_def)
  have x: "?x = map (\<lambda>v. v - mean [1, 2, 3]) [1, 2, 3]" by (simp add: mean_def)
  have ac: "add_constant ?x = Const_and ?x" by (simp add: add_constant_def)
  have nfA: "\<not> list_all isfinite (map snd ?lA)" by simp
  have fB: "list_all isfinite (map snd ?lB)" by simp
  have rA: "exact_regress (OLS (map fst ?lA) (add_constant ?x)) = Inr (20 # [10])"
    by (simp add: ac wsum_def)
  have rB: "exact_regress (WLS (map fst ?lB) (add_constant ?x) (map inv_square (map snd ?lB)))
      = Inr (20 # [10])"
    by (simp add: ac wsum_def)
  from single_cls_weighting [OF ti sl sp mins j pu locA _ sel x, of exact_regress 20 "[10]",
      THEN conjunct2, THEN conjunct1, THEN mp, OF _ conjI [OF nfA rA]]
  obtain rA where A: "single_cls ?pfA ?qv exact_regress ?self 0 (Halfwidth 0.5) (Halfwidth 5)
        Mode_neg Fit = Inr rA"
    "reg_model (reg_result rA) = OLS (map fst ?lA) (add_constant ?x)"
    "params (reg_result rA) = 20 # [10]" "max_pos_err rA = map snd ?lA"
    by auto
  from single_cls_weighting [OF ti sl sp mins j pu locB _ sel x, of exact_regress 20 "[10]",
      THEN conjunct1, THEN mp, OF _ conjI [OF fB rB]]
  obtain rB where B: "single_cls ?pfB ?qv exact_regress ?self 0 (Halfwidth 0.5) (Halfwidth 5)
        Mode_neg Fit = Inr rB"
    "reg_model (reg_result rB)
       = WLS (map fst ?lB) (add_constant ?x) (map inv_square (map snd ?lB))"
    "params (reg_result rB) = 20 # [10]" "max_pos_err rB = map snd ?lB"
    by auto
  have A': "\<exists>r. single_cls ?pfA ?qv exact_regress ?self 0 (Halfwidth 0.5) (Halfwidth 5)
        Mode_neg Fit = Inr r
        \<and> reg_model (reg_result r) = OLS [10, 20, 30] (Const_and ?x)
        \<and> max_pos_err r = [Finite 2, NaN, Finite 2]
        \<and> params (reg_result r) = [20, 10]"
    using A ac by (intro exI [of _ rA]) simp
  have B': "\<exists>r. single_cls ?pfB ?qv exact_regress ?self 0 (Halfwidth 0.5) (Halfwidth 5)
        Mode_neg Fit = Inr r
        \<and> reg_model (reg_result r)
            = WLS [10, 20, 30] (Const_and ?x) [Finite (1 / 4), Finite (1 / 4), Finite (1 / 4)]
        \<and> max_pos_err r = [Finite 2, Finite 2, Finite 2]
        \<and> params (reg_result r) = [20, 10]"
    using B ac by (intro exI [of _ rB]) simp
  show ?thesis by (intro conjI ti0 locA0 A' B')
qed

text \<open>
  C1. The \<open>slope\<close> field is \<open>r.params[0]\<close>, and the first column of the design is the
  constant. On a spectrum whose minima lie at the probe values 10, 20, 30 for the pump
  values 1, 2, 3 the line through the maxima has slope 10 and, at the mean pump value,
  height 20: the parameters are \<open>[20, 10]\<close> and the \<open>slope\<close> field is 20, the constant term.
\<close>

theorem single_cls_slope_is_constant_term:
  "single_cls peak_fit quad_vertex exact_regress
     \<lparr> t = [0], pump_wn = [1, 2, 3], probe_wn = [10, 20, 30],
       spec2d = \<lparr> shape = [1, 3, 3], cube = [[[-1, 0, 0], [0, -1, 0], [0, 0, -1]]] \<rparr> \<rparr>
     0 (Halfwidth 0.5) (Halfwidth 5) Mode_neg Com
   = Inr \<lparr> cls_pump_wn = [1, 2, 3], max_pos = [10, 20, 30],
           max_pos_err = [Finite 1, Finite 1, Finite 1],
           slope = 20,
           reg_result = \<lparr> reg_model = WLS [10, 20, 30] (Const_and [-1, 0, 1])
                                       [Finite 1, Finite 1, Finite 1],
                          params = [20, 10] \<rparr>,
           recentered_pump_wn = [-1, 0, 1],
           linear_fit = [10, 20, 30] \<rparr>"
  by (simp add: single_cls_def fi_def argmin_def slice_T_def row_mins_def around_def
      mask_idx_def mean_def locate_def average_def cls_regression_def regression_model_def
      add_constant_def wsum_def upt_rec Let_def)

section \<open>Background correction\<close>

lemma polyval_snoc: "polyval (p @ [c]) v = polyval p v * v + c"
  by (simp add: polyval_def)

lemma polyval_sum: "polyval p v = (\<Sum>i<length p. rev p ! i * v ^ i)"
proof (induction p rule: rev_induct)
  case Nil
  then show ?case by (simp add: polyval_def)
next
  case (snoc c p)
  have "(\<Sum>i<Suc (length p). (c # rev p) ! i * v ^ i)
      = c + (\<Sum>i<length p. rev p ! i * v ^ Suc i)"
    by (subst sum.lessThan_Suc_shift) simp
  also have "\<dots> = c + (\<Sum>i<length p. rev p ! i * v ^ i) * v"
    by (simp add: sum_distrib_left mult_ac)
  finally show ?case using snoc by (simp add: polyval_snoc)
qed

lemma polyval_agree:
  assumes lp: "length p = Suc d" and lc: "length c = Suc d"
    and pts: "finite S" "d < card S"
    and eq: "\<forall>x \<in> S. polyval p x = polyval c x"
  shows "polyval p v = polyval c v"
proof -
  let ?e = "\<lambda>i. rev p ! i - rev c ! i"
  have diff: "(\<Sum>i\<le>d. ?e i * x ^ i) = polyval p x - polyval c x" for x
    using lp lc by (simp add: polyval_sum lessThan_Suc_atMost sum_subtractf left_diff_distrib)
  have zero: "\<forall>i\<le>d. ?e i = 0"
  proof (rule ccontr)
    assume "\<not> (\<forall>i\<le>d. ?e i = 0)"
    then obtain k where k: "?e k \<noteq> 0" "k \<le> d" by blast
    let ?R = "{z. (\<Sum>i\<le>d. ?e i * z ^ i) = 0}"
    from polyfun_rootbound [of ?e k d] k have fin: "finite ?R" and card: "card ?R \<le> d"
      by auto
    have "S \<subseteq> ?R" using eq diff by auto
    with fin have "card S \<le> card ?R" by (rule card_mono)
    with card pts show False by simp
  qed
  have "polyval p v - polyval c v = (\<Sum>i\<le>d. ?e i * v ^ i)" using diff by simp
  also have "\<dots> = 0" using zero by simp
  finally show ?thesis by simp
qed

lemma residual_nonneg: "0 \<le> residual q xs ys"
  unfolding residual_def by (rule sum_list_nonneg) auto

lemma sum_list_squares_zero:
  "sum_list (map2 (\<lambda>x y. (f x - y)\<^sup>2) xs ys) = (0::real) \<Longrightarrow> length xs = length ys
     \<Longrightarrow> \<forall>i<length xs. f (xs ! i) = ys ! i"
proof (induction xs ys rule: list_induct2')
  case (4 x xs y ys)
  have nn: "0 \<le> sum_list (map2 (\<lambda>x y. (f x - y)\<^sup>2) xs ys)"
    by (rule sum_list_nonneg) auto
  from 4 nn have a: "(f x - y)\<^sup>2 = 0" and b: "sum_list (map2 (\<lambda>x y. (f x - y)\<^sup>2) xs ys) = 0"
    by (simp_all add: add_nonneg_eq_0_iff)
  from 4 b have "\<forall>i<length xs. f (xs ! i) = ys ! i" by simp
  with a show ?case by (auto simp: less_Suc_eq_0_disj)
qed simp_all

lemma residual_zero_iff:
  "length xs = length ys \<Longrightarrow> residual p xs ys = 0 \<Longrightarrow> \<forall>i<length xs. polyval p (xs ! i) = ys ! i"
  unfolding residual_def by (rule sum_list_squares_zero)

lemma residual_exact:
  "\<forall>i<length xs. polyval c (xs ! i) = ys ! i \<Longrightarrow> length xs = length ys \<Longrightarrow> residual c xs ys = 0"
  unfolding residual_def
proof (induction xs ys rule: list_induct2')
  case (4 x xs y ys)
  then have "polyval c x = y" and "\<forall>i<length xs. polyval c (xs ! i) = ys ! i" by auto
  with 4 show ?case by simp
qed simp_all


lemma subtract_column_length:
  "length vals = length plane \<Longrightarrow> length (subtract_column c vals plane) = length plane"
  by (simp add: subtract_column_def)

lemma subtract_column_rows:
  "\<forall>row \<in> set plane. length row = k \<Longrightarrow>
     \<forall>row \<in> set (subtract_column c vals plane). length row = k"
  by (auto simp: subtract_column_def dest: set_zip_leftD)

lemma subtract_column_col:
  assumes "length vals = length plane" "\<forall>row \<in> set plane. length row = k" "c < k"
  shows "map (\<lambda>row. row ! c') (subtract_column c vals plane) =
     (if c' = c then map2 (-) (map (\<lambda>row. row ! c) plane) vals
      else map (\<lambda>row. row ! c') plane)"
  using assms
  by (induction vals plane rule: list_induct2) (auto simp: subtract_column_def)

lemma correct_planes_ok:
  "\<forall>plane \<in> set planes. fst (step plane) = Inr () \<Longrightarrow>
     correct_planes step planes = (Inr (), map (\<lambda>plane. snd (step plane)) planes)"
  by (induction planes) (auto split: prod.splits sum.splits)

lemma correct_plane_ok:
  assumes "length plane = length pr" "length rng = length pr"
    and "\<forall>row \<in> set plane. length row = k"
    and "distinct cols" "\<forall>c \<in> set cols. c < k"
    and "\<forall>c \<in> set cols.
           polyfit solver (mask_idx pr rng) (mask_idx (map (\<lambda>row. row ! c) plane) rng) deg
             = Inr (pc c)"
  shows "\<exists>plane'. correct_plane solver pr rng deg cols plane = (Inr (), plane')
      \<and> length plane' = length pr \<and> (\<forall>row \<in> set plane'. length row = k)
      \<and> (\<forall>c. map (\<lambda>row. row ! c) plane' =
            (if c \<in> set cols
             then map2 (-) (map (\<lambda>row. row ! c) plane) (map (polyval (pc c)) pr)
             else map (\<lambda>row. row ! c) plane))"
  using assms
proof (induction cols arbitrary: plane)
  case Nil
  then show ?case by simp
next
  case (Cons col cols)
  let ?vals = "map (polyval (pc col)) pr"
  let ?next = "subtract_column col ?vals plane"
  have lv: "length ?vals = length plane" using Cons.prems(1) by simp
  have colk: "col < k" using Cons.prems(5) by simp
  have cc: "map (\<lambda>row. row ! c) ?next =
     (if c = col then map2 (-) (map (\<lambda>row. row ! col) plane) ?vals
      else map (\<lambda>row. row ! c) plane)" for c
    using subtract_column_col [OF lv Cons.prems(3) colk] by simp
  have l1: "length ?next = length pr"
    using subtract_column_length [OF lv] Cons.prems(1) by simp
  have r1: "\<forall>row \<in> set ?next. length row = k"
    using subtract_column_rows [OF Cons.prems(3)] by simp
  have d1: "distinct cols" and notin: "col \<notin> set cols" using Cons.prems(4) by simp_all
  have k1: "\<forall>c \<in> set cols. c < k" using Cons.prems(5) by simp
  have f1: "\<forall>c \<in> set cols.
           polyfit solver (mask_idx pr rng) (mask_idx (map (\<lambda>row. row ! c) ?next) rng) deg
             = Inr (pc c)"
    using Cons.prems(6) notin cc by auto
  from Cons.IH [OF l1 Cons.prems(2) r1 d1 k1 f1]
  obtain plane' where run: "correct_plane solver pr rng deg cols ?next = (Inr (), plane')"
    and l2: "length plane' = length pr" and r2: "\<forall>row \<in> set plane'. length row = k"
    and c2: "\<forall>c. map (\<lambda>row. row ! c) plane' =
            (if c \<in> set cols
             then map2 (-) (map (\<lambda>row. row ! c) ?next) (map (polyval (pc c)) pr)
             else map (\<lambda>row. row ! c) ?next)"
    by blast
  have here: "polyfit solver (mask_idx pr rng) (mask_idx (map (\<lambda>row. row ! col) plane) rng) deg
      = Inr (pc col)"
    using Cons.prems(6) by simp
  have mv: "mask_vec (map (\<lambda>row. row ! col) plane) rng
      = Inr (mask_idx (map (\<lambda>row. row ! col) plane) rng)"
    using Cons.prems(1,2) by (simp add: mask_vec_def)
  have step: "correct_plane solver pr rng deg (col # cols) plane = (Inr (), plane')"
    using run here mv by (simp add: probe_column_def)
  have "map (\<lambda>row. row ! c) plane' =
            (if c \<in> set (col # cols)
             then map2 (-) (map (\<lambda>row. row ! c) plane) (map (polyval (pc c)) pr)
             else map (\<lambda>row. row ! c) plane)" for c
    using c2 cc notin by (cases "c = col") auto
  with step l2 r2 show ?case by blast
qed


lemma mask_idx_map: "mask_idx (map f xs) msk = map f (mask_idx xs msk)"
  unfolding mask_idx_def
  by (induction xs arbitrary: msk) (auto simp: zip_Cons1 split: list.splits)

lemma minimiser_reproduces:
  assumes lp: "length p = Suc d" and lc: "length c = Suc d"
    and pts: "d < card (set X)"
    and mini: "\<forall>q. length q = Suc d \<longrightarrow>
        residual p X (map (polyval c) X) \<le> residual q X (map (polyval c) X)"
  shows "polyval p v = polyval c v"
proof -
  have "residual c X (map (polyval c) X) = 0" by (rule residual_exact) simp_all
  with mini lc have "residual p X (map (polyval c) X) \<le> 0" by metis
  with residual_nonneg [of p X "map (polyval c) X"]
  have "residual p X (map (polyval c) X) = 0" by simp
  from residual_zero_iff [OF _ this]
  have "\<forall>i<length X. polyval p (X ! i) = polyval c (X ! i)" by simp
  then have "\<forall>x \<in> set X. polyval p x = polyval c x" by (auto simp: in_set_conv_nth)
  from polyval_agree [OF lp lc _ pts this] show ?thesis by simp
qed

lemma background_correction_cells:
  assumes shp: "shape (spec2d self) = [n, length (probe_wn self), k]"
    and wf: "wf_ndarray (spec2d self)"
    and fits: "\<forall>ti<n. \<forall>col<k.
        polyfit solver (mask_idx (probe_wn self) (outside (probe_wn self) ex))
          (mask_idx (probe_column (cube (spec2d self) ! ti) col) (outside (probe_wn self) ex)) deg
        = Inr (pc ti col)"
  shows "\<exists>cube'. background_correction solver self ex deg
        = (Inr (), self\<lparr> spec2d := (spec2d self)\<lparr> cube := cube' \<rparr> \<rparr>)
      \<and> length cube' = n
      \<and> (\<forall>ti<n. \<forall>j<length (probe_wn self). \<forall>col<k.
            cube' ! ti ! j ! col
              = cube (spec2d self) ! ti ! j ! col - polyval (pc ti col) (probe_wn self ! j))"
proof -
  let ?pr = "probe_wn self" and ?cube = "cube (spec2d self)"
  let ?rng = "outside ?pr ex"
  let ?step = "correct_plane solver ?pr ?rng deg [0..<k]"
  have lc: "length ?cube = n"
    and rows: "\<forall>plane \<in> set ?cube. length plane = length ?pr \<and> (\<forall>row \<in> set plane. length row = k)"
    using wf shp by (simp_all add: wf_ndarray_def)
  have lr: "length ?rng = length ?pr" by (simp add: outside_def inbetween_def)
  have each: "\<exists>plane'. ?step (?cube ! ti) = (Inr (), plane')
      \<and> (\<forall>j<length ?pr. \<forall>col<k.
            plane' ! j ! col = ?cube ! ti ! j ! col - polyval (pc ti col) (?pr ! j))"
    if ti: "ti < n" for ti
  proof -
    let ?plane = "?cube ! ti"
    have mem: "?plane \<in> set ?cube" using ti lc by simp
    have lp: "length ?plane = length ?pr" and rk: "\<forall>row \<in> set ?plane. length row = k"
      using rows mem by auto
    have f: "\<forall>c \<in> set [0..<k].
        polyfit solver (mask_idx ?pr ?rng) (mask_idx (map (\<lambda>row. row ! c) ?plane) ?rng) deg
          = Inr (pc ti c)"
      using fits ti by (simp add: probe_column_def)
    from correct_plane_ok [OF lp lr rk _ _ f]
    obtain plane' where run: "?step ?plane = (Inr (), plane')"
      and l2: "length plane' = length ?pr"
      and cols: "\<forall>c. map (\<lambda>row. row ! c) plane' =
            (if c \<in> set [0..<k]
             then map2 (-) (map (\<lambda>row. row ! c) ?plane) (map (polyval (pc ti c)) ?pr)
             else map (\<lambda>row. row ! c) ?plane)"
      by auto
    have "plane' ! j ! col = ?plane ! j ! col - polyval (pc ti col) (?pr ! j)"
      if j: "j < length ?pr" and col: "col < k" for j col
    proof -
      have "plane' ! j ! col = map (\<lambda>row. row ! col) plane' ! j" using j l2 by simp
      also have "\<dots> = map2 (-) (map (\<lambda>row. row ! col) ?plane) (map (polyval (pc ti col)) ?pr) ! j"
        using cols col by simp
      also have "\<dots> = ?plane ! j ! col - polyval (pc ti col) (?pr ! j)"
        using j lp by simp
      finally show ?thesis .
    qed
    with run show ?thesis by blast
  qed
  have all_ok: "\<forall>plane \<in> set ?cube. fst (?step plane) = Inr ()"
  proof
    fix plane assume "plane \<in> set ?cube"
    then obtain ti where "ti < n" "plane = ?cube ! ti" using lc by (auto simp: in_set_conv_nth)
    with each [of ti] show "fst (?step plane) = Inr ()" by auto
  qed
  let ?cube' = "map (\<lambda>plane. snd (?step plane)) ?cube"
  have run: "correct_planes ?step ?cube = (Inr (), ?cube')"
    using all_ok by (rule correct_planes_ok)
  have res: "background_correction solver self ex deg
      = (Inr (), self\<lparr> spec2d := (spec2d self)\<lparr> cube := ?cube' \<rparr> \<rparr>)"
    using run shp by (simp add: background_correction_def)
  have cells: "\<forall>ti<n. \<forall>j<length ?pr. \<forall>col<k.
      ?cube' ! ti ! j ! col = ?cube ! ti ! j ! col - polyval (pc ti col) (?pr ! j)"
  proof (intro allI impI)
    fix ti j col assume ti: "ti < n" and j: "j < length ?pr" and col: "col < k"
    from each [OF ti] obtain plane' where "?step (?cube ! ti) = (Inr (), plane')"
      and "\<forall>j<length ?pr. \<forall>col<k.
            plane' ! j ! col = ?cube ! ti ! j ! col - polyval (pc ti col) (?pr ! j)"
      by blast
    then show "?cube' ! ti ! j ! col = ?cube ! ti ! j ! col - polyval (pc ti col) (?pr ! j)"
      using ti lc j col by simp
  qed
  from res cells lc show ?thesis by (intro exI [of _ ?cube']) simp
qed

text \<open>
  C5 (as the code has it). When \<open>np.polyfit\<close> returns for every (waiting time, pump)
  column, \<open>pc ti col\<close> being the coefficients fitted to the probe points outside of the
  excluded range, \<open>background_correction\<close> returns normally and has overwritten \<open>spec2d\<close>
  in place (same address, same shape, every other array and every axis untouched): each
  cell is the old cell minus the fitted polynomial at its probe value, over the full probe
  axis. If moreover more than \<open>deg\<close> distinct probe values lie outside of the excluded
  range, the fits are least-squares solutions of degree \<open>deg\<close> and every column is a
  polynomial of degree at most \<open>deg\<close> in the probe value (coefficients \<open>pl ti col\<close>), then
  every cell of the corrected array is zero (exactly so in exact arithmetic).
\<close>

theorem background_correction_in_place:
  assumes ok: "valid_ref s r"
    and shp: "shape (spec2d (load s r)) = [n, length (probe_wn (load s r)), k]"
    and wf: "wf_ndarray (spec2d (load s r))"
    and fits: "\<forall>ti<n. \<forall>col<k.
        polyfit solver (fit_points (load s r) ex) (fit_values (load s r) ex ti col) deg = Inr (pc ti col)"
  shows "\<exists>s'. background_correction_store solver s r ex deg = (Inr (), s')
      \<and> vecs s' = vecs s \<and> length (arrs s') = length (arrs s)
      \<and> (\<forall>a<length (arrs s). a \<noteq> spec2d_ref r \<longrightarrow> arrs s' ! a = arrs s ! a)
      \<and> shape (spec2d (load s' r)) = shape (spec2d (load s r))
      \<and> (\<forall>ti<n. \<forall>j<length (probe_wn (load s r)). \<forall>col<k.
            cube (spec2d (load s' r)) ! ti ! j ! col
              = cube (spec2d (load s r)) ! ti ! j ! col
                - polyval (pc ti col) (probe_wn (load s r) ! j))
      \<and> (deg < card (set (fit_points (load s r) ex))
           \<and> (\<forall>ti<n. \<forall>col<k.
                 least_squares (pc ti col) deg (fit_points (load s r) ex) (fit_values (load s r) ex ti col)
                 \<and> length (pl ti col) = Suc deg
                 \<and> (\<forall>j<length (probe_wn (load s r)).
                       cube (spec2d (load s r)) ! ti ! j ! col
                         = polyval (pl ti col) (probe_wn (load s r) ! j)))
           \<longrightarrow> (\<forall>ti<n. \<forall>j<length (probe_wn (load s r)). \<forall>col<k.
                 cube (spec2d (load s' r)) ! ti ! j ! col = 0))"
proof -
  let ?self = "load s r"
  let ?pr = "probe_wn ?self" and ?cube = "cube (spec2d ?self)"
  let ?X = "fit_points ?self ex"
  have fits': "\<forall>ti<n. \<forall>col<k.
        polyfit solver (mask_idx ?pr (outside ?pr ex))
          (mask_idx (probe_column (?cube ! ti) col) (outside ?pr ex)) deg
        = Inr (pc ti col)"
    using fits by (simp add: fit_points_def fit_values_def)
  from background_correction_cells [OF shp wf fits']
  obtain cube' where run: "background_correction solver ?self ex deg
        = (Inr (), ?self\<lparr> spec2d := (spec2d ?self)\<lparr> cube := cube' \<rparr> \<rparr>)"
    and cells: "\<forall>ti<n. \<forall>j<length ?pr. \<forall>col<k.
            cube' ! ti ! j ! col = ?cube ! ti ! j ! col - polyval (pc ti col) (?pr ! j)"
    by (elim exE conjE)
  let ?a = "(spec2d ?self)\<lparr> cube := cube' \<rparr>"
  let ?s' = "s\<lparr> arrs := (arrs s)[spec2d_ref r := ?a] \<rparr>"
  have st: "background_correction_store solver s r ex deg = (Inr (), ?s')"
    using run by (simp add: background_correction_store_def)
  have ld: "spec2d (load ?s' r) = ?a" using ok by (simp add: load_def valid_ref_def)
  have cb: "cube (spec2d (load ?s' r)) = cube'" by (simp add: ld)
  have lc: "length ?cube = n"
    and planes: "\<forall>plane \<in> set ?cube. length plane = length ?pr"
    using wf shp by (simp_all add: wf_ndarray_def)
  have zero: "cube' ! ti ! j ! col = 0"
    if enough: "deg < card (set ?X)"
      and ls: "least_squares (pc ti col) deg ?X (fit_values ?self ex ti col)"
      and c: "length (pl ti col) = Suc deg"
        "\<forall>j<length ?pr. ?cube ! ti ! j ! col = polyval (pl ti col) (?pr ! j)"
      and ti: "ti < n" and j: "j < length ?pr" and col: "col < k"
    for ti j col
  proof -
    have lpl: "length (?cube ! ti) = length ?pr" using planes ti lc by simp
    have "probe_column (?cube ! ti) col = map (polyval (pl ti col)) ?pr"
      using c(2) lpl by (simp add: probe_column_def list_eq_iff_nth_eq)
    then have Y: "fit_values ?self ex ti col = map (polyval (pl ti col)) ?X"
      by (simp add: fit_values_def fit_points_def mask_idx_map)
    from ls have lp: "length (pc ti col) = Suc deg"
      and mini: "\<forall>q. length q = Suc deg \<longrightarrow>
        residual (pc ti col) ?X (map (polyval (pl ti col)) ?X)
          \<le> residual q ?X (map (polyval (pl ti col)) ?X)"
      unfolding least_squares_def Y by simp_all
    from minimiser_reproduces [OF lp c(1) enough mini]
    have "polyval (pc ti col) (?pr ! j) = polyval (pl ti col) (?pr ! j)" .
    moreover from cells ti j col
    have "cube' ! ti ! j ! col = ?cube ! ti ! j ! col - polyval (pc ti col) (?pr ! j)" by simp
    moreover from c(2) j have "?cube ! ti ! j ! col = polyval (pl ti col) (?pr ! j)" by simp
    ultimately show ?thesis by simp
  qed
  have keep: "\<forall>a<length (arrs s). a \<noteq> spec2d_ref r \<longrightarrow> arrs ?s' ! a = arrs s ! a"
    by simp
  have cells': "\<forall>ti<n. \<forall>j<length ?pr. \<forall>col<k.
            cube (spec2d (load ?s' r)) ! ti ! j ! col
              = ?cube ! ti ! j ! col - polyval (pc ti col) (?pr ! j)"
    unfolding cb by (rule cells)
  have zero': "deg < card (set ?X)
           \<and> (\<forall>ti<n. \<forall>col<k.
                 least_squares (pc ti col) deg ?X (fit_values ?self ex ti col)
                 \<and> length (pl ti col) = Suc deg
                 \<and> (\<forall>j<length ?pr. ?cube ! ti ! j ! col = polyval (pl ti col) (?pr ! j)))
           \<longrightarrow> (\<forall>ti<n. \<forall>j<length ?pr. \<forall>col<k.
                 cube (spec2d (load ?s' r)) ! ti ! j ! col = 0)"
    unfolding cb
  proof (intro impI allI)
    fix ti j col
    assume h: "deg < card (set ?X)
           \<and> (\<forall>ti<n. \<forall>col<k.
                 least_squares (pc ti col) deg ?X (fit_values ?self ex ti col)
                 \<and> length (pl ti col) = Suc deg
                 \<and> (\<forall>j<length ?pr. ?cube ! ti ! j ! col = polyval (pl ti col) (?pr ! j)))"
      and ti: "ti < n" and j: "j < length ?pr" and col: "col < k"
    from h have enough: "deg < card (set ?X)" by (rule conjunct1)
    from h have "\<forall>ti<n. \<forall>col<k.
                 least_squares (pc ti col) deg ?X (fit_values ?self ex ti col)
                 \<and> length (pl ti col) = Suc deg
                 \<and> (\<forall>j<length ?pr. ?cube ! ti ! j ! col = polyval (pl ti col) (?pr ! j))"
      by (rule conjunct2)
    from this [rule_format, OF ti col]
    have ls: "least_squares (pc ti col) deg ?X (fit_values ?self ex ti col)"
      and c1: "length (pl ti col) = Suc deg"
      and c2: "\<forall>j<length ?pr. ?cube ! ti ! j ! col = polyval (pl ti col) (?pr ! j)"
      by simp_all
    from zero [OF enough ls c1 c2 ti j col] show "cube' ! ti ! j ! col = 0" .
  qed
  have shape': "shape (spec2d (load ?s' r)) = shape (spec2d ?self)" by (simp add: ld)
  have v: "vecs ?s' = vecs s" and l: "length (arrs ?s') = length (arrs s)" by simp_all
  show ?thesis
    by (rule exI [of _ ?s']) (intro conjI st v l keep shape' cells' zero')
qed

theorem background_correction_in_place_witness:
  "valid_ref \<lparr> vecs = [[0], [1, 2], [0, 1, 2, 3]],
        arrs = [\<lparr> shape = [1, 4, 2], cube = [[[1, 10], [3, 10], [5, 10], [7, 10]]] \<rparr>] \<rparr>
      \<lparr> t_ref = 0, pump_wn_ref = 1, probe_wn_ref = 2, spec2d_ref = 0 \<rparr>
   \<and> wf_ndarray \<lparr> shape = [1, 4, 2], cube = [[[1, 10], [3, 10], [5, 10], [7, 10]]] \<rparr>
   \<and> mask_idx [0, 1, 2, 3] (outside [0, 1, 2, 3] (1, 2)) = [0, 3 :: real]
   \<and> polyfit line_fit [0, 3] [1, 7] 1 = Inr [2, 1]
   \<and> polyfit line_fit [0, 3] [10, 10] 1 = Inr [0, 10]
   \<and> least_squares [2, 1] 1 [0, 3] [1, 7]
   \<and> least_squares [0, 10] 1 [0, 3] [10, 10]
   \<and> (\<exists>s'. background_correction_store line_fit
          \<lparr> vecs = [[0], [1, 2], [0, 1, 2, 3]],
            arrs = [\<lparr> shape = [1, 4, 2], cube = [[[1, 10], [3, 10], [5, 10], [7, 10]]] \<rparr>] \<rparr>
          \<lparr> t_ref = 0, pump_wn_ref = 1, probe_wn_ref = 2, spec2d_ref = 0 \<rparr> (1, 2) 1 = (Inr (), s')
        \<and> vecs s' = [[0], [1, 2], [0, 1, 2, 3]]
        \<and> cube (arrs s' ! 0) ! 0 ! 1 ! 0 = 0
        \<and> cube (arrs s' ! 0) ! 0 ! 2 ! 1 = 0)"
proof -
  let ?a = "\<lparr> shape = [1, 4, 2], cube = [[[1, 10], [3, 10], [5, 10], [7, 10 :: real]]] \<rparr>"
  let ?s = "\<lparr> vecs = [[0], [1, 2], [0, 1, 2, 3]], arrs = [?a] \<rparr>"
  let ?r = "\<lparr> t_ref = 0, pump_wn_ref = 1, probe_wn_ref = 2, spec2d_ref = 0 \<rparr>"
  let ?self = "\<lparr> t = [0], pump_wn = [1, 2], probe_wn = [0, 1, 2, 3], spec2d = ?a \<rparr>"
  let ?pc = "\<lambda>(ti :: nat) (col :: nat). if col = 0 then [2, 1 :: real] else [0, 10]"
  let ?X = "[0, 3 :: real]"
  have ok: "valid_ref ?s ?r" by (simp add: valid_ref_def)
  have wf0: "wf_ndarray ?a" by (simp add: wf_ndarray_def)
  have ld: "load ?s ?r = ?self" by (simp add: load_def)
  have shp: "shape (spec2d (load ?s ?r)) = [1, length (probe_wn (load ?s ?r)), 2]"
    unfolding ld by simp
  have wf: "wf_ndarray (spec2d (load ?s ?r))" unfolding ld using wf0 by simp
  have X0: "mask_idx [0, 1, 2, 3] (outside [0, 1, 2, 3] (1, 2)) = ?X"
    by (simp add: mask_idx_def outside_def inbetween_def)
  have X: "fit_points ?self (1, 2) = ?X"
    by (simp add: fit_points_def mask_idx_def outside_def inbetween_def)
  have Y0: "fit_values ?self (1, 2) 0 0 = [1, 7]"
    by (simp add: fit_values_def mask_idx_def outside_def inbetween_def probe_column_def)
  have Y1: "fit_values ?self (1, 2) 0 1 = [10, 10]"
    by (simp add: fit_values_def mask_idx_def outside_def inbetween_def probe_column_def)
  have f0: "polyfit line_fit ?X [1, 7] 1 = Inr [2, 1]"
    by (simp add: polyfit_def line_fit_def wsum_def)
  have f1: "polyfit line_fit ?X [10, 10] 1 = Inr [0, 10]"
    by (simp add: polyfit_def line_fit_def wsum_def)
  have r0: "residual [2, 1] ?X [1, 7] = 0" by (simp add: residual_def polyval_def)
  have r1: "residual [0, 10] ?X [10, 10] = 0" by (simp add: residual_def polyval_def)
  have ls0: "least_squares [2, 1] 1 ?X [1, 7]"
    unfolding least_squares_def r0 using residual_nonneg by simp
  have ls1: "least_squares [0, 10] 1 ?X [10, 10]"
    unfolding least_squares_def r1 using residual_nonneg by simp
  have cases: "(ti = 0 \<and> col = 0) \<or> (ti = 0 \<and> col = 1)" if "ti < 1" "col < 2" for ti col :: nat
    using that by auto
  have four: "j = 0 \<or> j = 1 \<or> j = 2 \<or> j = 3" if "j < length [0, 1, 2, 3 :: real]" for j :: nat
    using that by auto
  have c0: "\<forall>j<length [0, 1, 2, 3 :: real]. cube ?a ! 0 ! j ! 0 = polyval [2, 1] ([0, 1, 2, 3] ! j)"
  proof (intro allI impI)
    fix j :: nat assume "j < length [0, 1, 2, 3 :: real]"
    from four [OF this] show "cube ?a ! 0 ! j ! 0 = polyval [2, 1] ([0, 1, 2, 3] ! j)"
      by (auto simp: polyval_def)
  qed
  have c1: "\<forall>j<length [0, 1, 2, 3 :: real]. cube ?a ! 0 ! j ! 1 = polyval [0, 10] ([0, 1, 2, 3] ! j)"
  proof (intro allI impI)
    fix j :: nat assume "j < length [0, 1, 2, 3 :: real]"
    from four [OF this] show "cube ?a ! 0 ! j ! 1 = polyval [0, 10] ([0, 1, 2, 3] ! j)"
      by (auto simp: polyval_def)
  qed
  have fits: "\<forall>ti<1. \<forall>col<2.
        polyfit line_fit (fit_points (load ?s ?r) (1, 2)) (fit_values (load ?s ?r) (1, 2) ti col) 1
          = Inr (?pc ti col)"
    unfolding ld X
  proof (intro allI impI)
    fix ti col :: nat assume "ti < 1" "col < 2"
    from cases [OF this]
    show "polyfit line_fit ?X (fit_values ?self (1, 2) ti col) 1 = Inr (?pc ti col)"
    proof (elim disjE conjE)
      assume "ti = 0" "col = 0"
      then show ?thesis using f0 by (simp only: Y0) simp
    next
      assume "ti = 0" "col = 1"
      then show ?thesis using f1 by (simp only: Y1) simp
    qed
  qed
  have enough: "1 < card (set (fit_points (load ?s ?r) (1, 2)))"
    unfolding ld X by simp
  have hyp: "\<forall>ti<1. \<forall>col<2.
      least_squares (?pc ti col) 1 (fit_points (load ?s ?r) (1, 2)) (fit_values (load ?s ?r) (1, 2) ti col)
      \<and> length (?pc ti col) = Suc 1
      \<and> (\<forall>j<length (probe_wn (load ?s ?r)).
            cube (spec2d (load ?s ?r)) ! ti ! j ! col = polyval (?pc ti col) (probe_wn (load ?s ?r) ! j))"
    unfolding ld X
  proof (intro allI impI)
    fix ti col :: nat assume "ti < 1" "col < 2"
    from cases [OF this]
    show "least_squares (?pc ti col) 1 ?X (fit_values ?self (1, 2) ti col)
      \<and> length (?pc ti col) = Suc 1
      \<and> (\<forall>j<length (probe_wn ?self).
            cube (spec2d ?self) ! ti ! j ! col = polyval (?pc ti col) (probe_wn ?self ! j))"
    proof (elim disjE conjE)
      assume "ti = 0" "col = 0"
      then show ?thesis using ls0 c0 by (simp only: Y0) simp
    next
      assume "ti = 0" "col = 1"
      then show ?thesis using ls1 c1 by (simp only: Y1) simp
    qed
  qed
  from background_correction_in_place [OF ok shp wf fits, of ?pc]
  obtain s' where run: "background_correction_store line_fit ?s ?r (1, 2) 1 = (Inr (), s')"
    and v: "vecs s' = vecs ?s"
    and z: "1 < card (set (fit_points (load ?s ?r) (1, 2)))
       \<and> (\<forall>ti<1. \<forall>col<2.
          least_squares (?pc ti col) 1 (fit_points (load ?s ?r) (1, 2)) (fit_values (load ?s ?r) (1, 2) ti col)
          \<and> length (?pc ti col) = Suc 1
          \<and> (\<forall>j<length (probe_wn (load ?s ?r)).
                cube (spec2d (load ?s ?r)) ! ti ! j ! col = polyval (?pc ti col) (probe_wn (load ?s ?r) ! j)))
       \<longrightarrow> (\<forall>ti<1. \<forall>j<length (probe_wn (load ?s ?r)). \<forall>col<2.
                 cube (spec2d (load s' ?r)) ! ti ! j ! col = 0)"
    by (elim exE conjE)
  from z [THEN mp, OF conjI [OF enough hyp]]
  have zeros: "\<forall>ti<1. \<forall>j<length (probe_wn (load ?s ?r)). \<forall>col<2.
                 cube (spec2d (load s' ?r)) ! ti ! j ! col = 0" .
  have z1: "cube (arrs s' ! 0) ! 0 ! 1 ! 0 = 0"
    using zeros [rule_format, of 0 1 0] unfolding ld by (simp add: load_def)
  have z2: "cube (arrs s' ! 0) ! 0 ! 2 ! 1 = 0"
    using zeros [rule_format, of 0 2 1] unfolding ld by (simp add: load_def)
  have v': "vecs s' = [[0], [1, 2], [0, 1, 2, 3]]" using v by simp
  have "\<exists>s'. background_correction_store line_fit ?s ?r (1, 2) 1 = (Inr (), s')
        \<and> vecs s' = [[0], [1, 2], [0, 1, 2, 3]]
        \<and> cube (arrs s' ! 0) ! 0 ! 1 ! 0 = 0
        \<and> cube (arrs s' ! 0) ! 0 ! 2 ! 1 = 0"
    by (rule exI [of _ s']) (intro conjI run v' z1 z2)
  then show ?thesis by (intro conjI ok wf0 X0 f0 f1 ls0 ls1)
qed

text \<open>
  C5 as stated promises a zero array for every polynomial dataset. On the dataset below,
  linear in the probe value, the excluded range \<open>(0, 3)\<close> covers all four probe values:
  \<open>np.polyfit\<close> is called on an empty \<open>x\<close> for the first column and raises, and the array
  is as it was.
\<close>

theorem background_correction_no_points_counterexample:
  "background_correction line_fit
     \<lparr> t = [0], pump_wn = [1, 2], probe_wn = [0, 1, 2, 3],
       spec2d = \<lparr> shape = [1, 4, 2], cube = [[[1, 10], [3, 10], [5, 10], [7, 10]]] \<rparr> \<rparr>
     (0, 3) 1
   = (Inl TypeError_polyfit,
      \<lparr> t = [0], pump_wn = [1, 2], probe_wn = [0, 1, 2, 3],
        spec2d = \<lparr> shape = [1, 4, 2], cube = [[[1, 10], [3, 10], [5, 10], [7, 10]]] \<rparr> \<rparr>)"
  by (simp add: background_correction_def outside_def inbetween_def upt_rec probe_column_def
      mask_vec_def mask_idx_def polyfit_def)

end
